theory Spec2Isabelle
  imports Complex_Main
begin

section \<open>JavaScript values as the sale handler uses them\<close>

text \<open>
  The model follows \<^verbatim>\<open>router.post('/')\<close> of \<^verbatim>\<open>src/routes/transactions.js\<close>
  (lines 354-651). A field of the JSON body that may be absent is an \<open>option\<close>
  (\<open>None\<close> is JavaScript's \<^verbatim>\<open>undefined\<close>). Money is a rational number (the rounding of
  IEEE doubles is not modelled); stock counts and quantities are integers, as the product
  schema validates \<^verbatim>\<open>currentStock\<close> with \<^verbatim>\<open>Number.isInteger\<close>. A product is stored under
  the text of its \<^verbatim>\<open>_id\<close>, 24 hexadecimal digits.
\<close>

text \<open>Truthiness, as \<^verbatim>\<open>!x\<close> and \<^verbatim>\<open>x || y\<close> see it: \<^verbatim>\<open>undefined\<close>, \<^verbatim>\<open>0\<close> and \<^verbatim>\<open>''\<close> are falsy.\<close>

definition truthyN :: "rat option \<Rightarrow> bool" where
  "truthyN v = (case v of None \<Rightarrow> False | Some x \<Rightarrow> x \<noteq> 0)"

definition truthyI :: "int option \<Rightarrow> bool" where
  "truthyI v = (case v of None \<Rightarrow> False | Some x \<Rightarrow> x \<noteq> 0)"

definition truthyS :: "string option \<Rightarrow> bool" where
  "truthyS v = (case v of None \<Rightarrow> False | Some s \<Rightarrow> s \<noteq> [])"

text \<open>\<^verbatim>\<open>a || b\<close> where \<^verbatim>\<open>b\<close> is always a value of the type.\<close>

definition orN :: "rat option \<Rightarrow> rat \<Rightarrow> rat" where
  "orN a b = (case a of None \<Rightarrow> b | Some x \<Rightarrow> if x \<noteq> 0 then x else b)"

definition orI :: "int option \<Rightarrow> int \<Rightarrow> int" where
  "orI a b = (case a of None \<Rightarrow> b | Some x \<Rightarrow> if x \<noteq> 0 then x else b)"

definition orS :: "string option \<Rightarrow> string \<Rightarrow> string" where
  "orS a b = (case a of None \<Rightarrow> b | Some s \<Rightarrow> if s \<noteq> [] then s else b)"

text \<open>\<^verbatim>\<open>a || b\<close> where \<^verbatim>\<open>b\<close> may itself be \<^verbatim>\<open>undefined\<close>.\<close>

definition orElseN :: "rat option \<Rightarrow> rat option \<Rightarrow> rat option" where
  "orElseN a b = (if truthyN a then a else b)"

definition orElseS :: "string option \<Rightarrow> string option \<Rightarrow> string option" where
  "orElseS a b = (if truthyS a then a else b)"

text \<open>A destructuring default \<^verbatim>\<open>{ x = d }\<close> applies to \<^verbatim>\<open>undefined\<close> only.\<close>

definition withDefault :: "'a option \<Rightarrow> 'a \<Rightarrow> 'a" where
  "withDefault a d = (case a of None \<Rightarrow> d | Some x \<Rightarrow> x)"

text \<open>\<^verbatim>\<open>String.prototype.toLowerCase\<close> and \<^verbatim>\<open>toUpperCase\<close>, on ASCII letters.\<close>

definition lowerChar :: "char \<Rightarrow> char" where
  "lowerChar c =
     (case map_of (zip ''ABCDEFGHIJKLMNOPQRSTUVWXYZ'' ''abcdefghijklmnopqrstuvwxyz'') c of
        None \<Rightarrow> c | Some l \<Rightarrow> l)"

definition upperChar :: "char \<Rightarrow> char" where
  "upperChar c =
     (case map_of (zip ''abcdefghijklmnopqrstuvwxyz'' ''ABCDEFGHIJKLMNOPQRSTUVWXYZ'') c of
        None \<Rightarrow> c | Some u \<Rightarrow> u)"

definition toLowerCase :: "string \<Rightarrow> string" where
  "toLowerCase s = map lowerChar s"

definition toUpperCase :: "string \<Rightarrow> string" where
  "toUpperCase s = map upperChar s"

text \<open>\<^verbatim>\<open>String.prototype.includes\<close>: the text \<open>t\<close> occurs in \<open>s\<close>.\<close>

fun includesText :: "string \<Rightarrow> string \<Rightarrow> bool" where
  "includesText [] t = (t = [])"
| "includesText (c # s) t = (take (length t) (c # s) = t \<or> includesText s t)"

text \<open>The decimal text of an integer, as a template literal renders a whole number.\<close>

fun showNat :: "nat \<Rightarrow> string" where
  "showNat n =
     (if n < 10 then [''0123456789'' ! n]
      else showNat (n div 10) @ [''0123456789'' ! (n mod 10)])"

definition showInt :: "int \<Rightarrow> string" where
  "showInt i = (if i < 0 then ''-'' @ showNat (nat (- i)) else showNat (nat i))"

text \<open>\<^verbatim>\<open>${x}\<close> of a value that may be \<^verbatim>\<open>undefined\<close>.\<close>

definition showS :: "string option \<Rightarrow> string" where
  "showS v = (case v of None \<Rightarrow> ''undefined'' | Some s \<Rightarrow> s)"

text \<open>What a \<^verbatim>\<open>throw\<close> carries: the constructor and the message.\<close>

datatype error = Error string | TypeError string | ReferenceError string | CastError string

fun message :: "error \<Rightarrow> string" where
  "message (Error m) = m"
| "message (TypeError m) = m"
| "message (ReferenceError m) = m"
| "message (CastError m) = m"

section \<open>Data model\<close>

text \<open>
  An entry of \<^verbatim>\<open>stockHistory\<close>, as it is stored. The entry that the handler pushes
  (lines 478-486) also names \<^verbatim>\<open>shop\<close> and \<^verbatim>\<open>cashier\<close>; the sub-schema of
  \<^verbatim>\<open>src/models/products.js\<close> has no such paths, so they are not stored.
\<close>

record stockEntry =
  sh_date :: nat
  sh_type :: string
  sh_quantity :: int
  sh_newStock :: int
  sh_reference :: string

text \<open>
  A product document (\<^verbatim>\<open>src/models/products.js\<close>), with the fields the handler reads
  or writes. \<^verbatim>\<open>sellingPrice\<close> is not a path of the schema; the handler reads it as a
  last fallback, so it is kept as an optional field. \<^verbatim>\<open>lastSold\<close>, which the handler's
  update names (line 488), is not a path of the schema either and is never stored.
\<close>

record product =
  p_name :: string
  p_category :: string
  p_barcode :: "string option"
  p_buyingPrice :: rat
  p_minSellingPrice :: rat
  p_sellingPrice :: "rat option"
  p_currentStock :: int
  p_stockHistory :: "stockEntry list"

text \<open>A line item of the request body.\<close>

record item =
  it_productId :: "string option"
  it_productName :: "string option"
  it_category :: "string option"
  it_barcode :: "string option"
  it_quantity :: "int option"
  it_unitPrice :: "rat option"
  it_price :: "rat option"
  it_totalPrice :: "rat option"

text \<open>A priced line, as pushed onto \<^verbatim>\<open>transactionItems\<close> (lines 455-467).\<close>

record line =
  li_productId :: "string option"
  li_productName :: string
  li_category :: string
  li_barcode :: string
  li_quantity :: int
  li_unitPrice :: rat
  li_price :: rat
  li_totalPrice :: rat
  li_costPrice :: rat
  li_profit :: rat
  li_profitMargin :: rat

text \<open>An entry of \<^verbatim>\<open>stockUpdates\<close> (lines 494-500).\<close>

record stockUpdate =
  su_productId :: "string option"
  su_productName :: string
  su_oldStock :: int
  su_newStock :: int
  su_quantitySold :: int

text \<open>The request body, field by field as the handler destructures it (lines 361-382).\<close>

record request =
  rq_saleType :: "string option"
  rq_status :: "string option"
  rq_paymentMethod :: "string option"
  rq_totalAmount :: "rat option"
  rq_amountPaid :: "rat option"
  rq_changeGiven :: "rat option"
  rq_subtotal :: "rat option"
  rq_taxAmount :: "rat option"
  rq_discountAmount :: "rat option"
  rq_items :: "item list option"
  rq_customerName :: "string option"
  rq_customerPhone :: "string option"
  rq_shop :: "string option"
  rq_shopId :: "string option"
  rq_shopName :: "string option"
  rq_cashierId :: "string option"
  rq_cashierName :: "string option"
  rq_saleDate :: "string option"
  rq_notes :: "string option"
  rq_transactionNumber :: "string option"

text \<open>\<^verbatim>\<open>new Date()\<close> at a clock reading, or \<^verbatim>\<open>new Date(saleDate)\<close> of the caller's text.\<close>

datatype jsdate = At nat | Parsed string

text \<open>The document handed to \<^verbatim>\<open>new Transaction({...})\<close> (lines 516-541).\<close>

record transaction =
  tx_saleType :: string
  tx_status :: string
  tx_paymentMethod :: string
  tx_totalAmount :: rat
  tx_amountPaid :: rat
  tx_changeGiven :: rat
  tx_subtotal :: rat
  tx_taxAmount :: rat
  tx_discountAmount :: rat
  tx_items :: "line list"
  tx_customerName :: string
  tx_customerPhone :: string
  tx_shop :: string
  tx_shopName :: string
  tx_cashierId :: string
  tx_cashierName :: string
  tx_saleDate :: jsdate
  tx_notes :: string
  tx_transactionNumber :: string
  tx_receiptNumber :: string
  tx_totalCost :: rat
  tx_totalProfit :: rat
  tx_profitMargin :: rat
  tx_createdBy :: string

text \<open>The two collections the handler touches.\<close>

record db =
  products :: "string \<rightharpoonup> product"
  transactions :: "transaction list"

text \<open>
  What the handler takes from its surroundings besides the body and the database: the
  clock, the text of \<^verbatim>\<open>Math.random().toString(36).substr(2, 5)\<close>, \<^verbatim>\<open>req.user?.id\<close>, the
  text the engine gives a number that is not a safe integer, and the message Mongoose
  gives the CastError for a value it cannot cast to an ObjectId.
\<close>

record env =
  now :: nat
  rnd :: string
  userId :: "string option"
  bigNumberText :: "int \<Rightarrow> string"
  castText :: "string \<Rightarrow> string"

text \<open>
  \<^verbatim>\<open>${n}\<close> of a whole number: its decimal digits as long as it is a safe integer (at
  most \<open>2^53 - 1\<close> in absolute value), the values that a double holds exactly and prints
  in full; beyond that the text is the engine's.
\<close>

definition numberText :: "env \<Rightarrow> int \<Rightarrow> string" where
  "numberText ev i =
     (if \<bar>i\<bar> \<le> 9007199254740991 then showInt i else bigNumberText ev i)"

text \<open>
  The text of an ObjectId: 24 hexadecimal digits. The query of line 424 casts every id it
  is given to an ObjectId, and a text of another form makes it reject. (A document is
  stored under \<^verbatim>\<open>_id.toString()\<close>, which is in lower case: an id given in upper case
  casts, and names no key of the \<^verbatim>\<open>productMap\<close>.)
\<close>

definition isHexDigit :: "char \<Rightarrow> bool" where
  "isHexDigit c = (c \<in> set ''0123456789abcdefABCDEF'')"

definition isObjectIdText :: "string \<Rightarrow> bool" where
  "isObjectIdText s = (length s = 24 \<and> list_all isHexDigit s)"

text \<open>The JSON bodies the handler sends, with the HTTP status.\<close>

record enhancedItem =
  ei_productName :: string
  ei_quantity :: int
  ei_price :: rat
  ei_totalPrice :: rat
  ei_cost :: rat
  ei_profit :: rat
  ei_profitMargin :: rat
  ei_category :: string
  ei_barcode :: string
  ei_unitPrice :: rat
  ei_costPrice :: rat

record enhanced =
  en_transaction :: transaction
  en_transactionNumber :: string
  en_cashierName :: string
  en_customerName :: string
  en_totalCost :: rat
  en_totalProfit :: rat
  en_profitMargin :: rat
  en_cost :: rat
  en_profit :: rat
  en_saleDate :: jsdate
  en_itemsCount :: int
  en_items :: "enhancedItem list"

record stockSummary =
  ss_productsUpdated :: nat
  ss_updates :: "stockUpdate list"
  ss_message :: string

record summary =
  sm_transactionNumber :: string
  sm_totalAmount :: rat
  sm_totalItems :: int
  sm_paymentMethod :: string
  sm_timestamp :: nat

record response =
  rs_status :: nat
  rs_success :: bool
  rs_message :: string
  rs_code :: "string option"
  rs_error :: "string option"
  rs_errors :: "string list option"
  rs_data :: "enhanced option"
  rs_shopInfo :: "(string \<times> string) option"
  rs_stockUpdate :: "stockSummary option"
  rs_summary :: "summary option"

definition plainResponse :: "nat \<Rightarrow> string \<Rightarrow> response" where
  "plainResponse st msg =
     \<lparr>rs_status = st, rs_success = False, rs_message = msg, rs_code = None, rs_error = None,
      rs_errors = None, rs_data = None, rs_shopInfo = None, rs_stockUpdate = None,
      rs_summary = None\<rparr>"

section \<open>Validation (lines 384-412)\<close>

definition finalShopId :: "request \<Rightarrow> string option" where
  "finalShopId rq = orElseS (rq_shopId rq) (rq_shop rq)"

definition finalShopName :: "request \<Rightarrow> string" where
  "finalShopName rq = orS (rq_shopName rq) (''Shop '' @ showS (finalShopId rq))"

definition shopRequired :: response where
  "shopRequired =
     plainResponse 400 ''Shop information is required. Provide either shop or shopId''"

definition acceptedMethods :: "string list" where
  "acceptedMethods = [''cash'', ''mpesa'', ''bank'', ''card'']"

text \<open>
  The message of the TypeError that \<^verbatim>\<open>paymentMethod.toLowerCase()\<close> throws when
  \<^verbatim>\<open>paymentMethod\<close> is \<^verbatim>\<open>undefined\<close> (the text is the engine's).
\<close>

definition noToLowerCase :: string where
  "noToLowerCase =
     ''Cannot read properties of undefined (reading '' @ [CHR 0x27] @ ''toLowerCase''
       @ [CHR 0x27] @ '')''"

text \<open>
  The \<^verbatim>\<open>validationErrors\<close> array, in push order. Line 398 calls
  \<^verbatim>\<open>paymentMethod.toLowerCase()\<close> whether or not line 397 pushed, so an absent
  \<^verbatim>\<open>paymentMethod\<close> throws there.
\<close>

definition validationErrors :: "request \<Rightarrow> error + string list" where
  "validationErrors rq =
     (case rq_paymentMethod rq of
        None \<Rightarrow> Inl (TypeError noToLowerCase)
      | Some pm \<Rightarrow>
          Inr ((if \<not> truthyS (rq_paymentMethod rq) then [''Payment method is required''] else [])
             @ (if toLowerCase pm \<notin> set acceptedMethods
                then [''Payment method must be cash, mpesa, bank, or card''] else [])
             @ (if \<not> truthyN (rq_totalAmount rq) \<or> withDefault (rq_totalAmount rq) 0 \<le> 0
                then [''Valid total amount is required''] else [])
             @ (if rq_items rq = None \<or> rq_items rq = Some []
                then [''Transaction items are required''] else [])
             @ (if \<not> truthyS (rq_cashierId rq) \<or> \<not> truthyS (rq_cashierName rq)
                then [''Cashier information is required''] else [])))"

definition validationFailed :: "string list \<Rightarrow> response" where
  "validationFailed errs = (plainResponse 400 ''Validation failed'')\<lparr>rs_errors := Some errs\<rparr>"

section \<open>Pricing a line (lines 436-467)\<close>

definition itemQuantity :: "item \<Rightarrow> int" where
  "itemQuantity it = orI (it_quantity it) 1"

definition itemPrice :: "item \<Rightarrow> product \<Rightarrow> rat" where
  "itemPrice it product =
     orN (orElseN (it_unitPrice it)
           (orElseN (it_price it)
             (orElseN (Some (p_minSellingPrice product)) (p_sellingPrice product)))) 0"

definition itemCostPrice :: "product \<Rightarrow> rat" where
  "itemCostPrice product = orN (Some (p_buyingPrice product)) 0"

definition itemTotalPrice :: "item \<Rightarrow> product \<Rightarrow> rat" where
  "itemTotalPrice it product =
     orN (it_totalPrice it) (itemPrice it product * of_int (itemQuantity it))"

definition itemCost :: "item \<Rightarrow> product \<Rightarrow> rat" where
  "itemCost it product = itemCostPrice product * of_int (itemQuantity it)"

definition itemProfit :: "item \<Rightarrow> product \<Rightarrow> rat" where
  "itemProfit it product = itemTotalPrice it product - itemCost it product"

definition priceItem :: "item \<Rightarrow> product \<Rightarrow> line" where
  "priceItem it product =
     \<lparr>li_productId = it_productId it,
      li_productName = orS (it_productName it) (p_name product),
      li_category = orS (orElseS (it_category it) (Some (p_category product))) ''Uncategorized'',
      li_barcode = orS (orElseS (it_barcode it) (p_barcode product)) [],
      li_quantity = itemQuantity it,
      li_unitPrice = itemPrice it product,
      li_price = itemPrice it product,
      li_totalPrice = itemTotalPrice it product,
      li_costPrice = itemCostPrice product,
      li_profit = itemProfit it product,
      li_profitMargin =
        (if itemTotalPrice it product > 0
         then (itemProfit it product / itemTotalPrice it product) * 100 else 0)\<rparr>"

section \<open>The item loop (lines 414-504)\<close>

text \<open>The accumulators declared before the loop.\<close>

record acc =
  calculatedTotalAmount :: rat
  calculatedTotalCost :: rat
  calculatedTotalProfit :: rat
  transactionItems :: "line list"
  stockUpdates :: "stockUpdate list"

definition acc0 :: acc where
  "acc0 = \<lparr>calculatedTotalAmount = 0, calculatedTotalCost = 0, calculatedTotalProfit = 0,
            transactionItems = [], stockUpdates = []\<rparr>"

text \<open>\<^verbatim>\<open>items.map(item => item.productId).filter(id => id)\<close>\<close>

definition productIds :: "item list \<Rightarrow> string option list" where
  "productIds items = filter truthyS (map it_productId items)"

text \<open>
  \<^verbatim>\<open>Product.find({ _id: { $in: ids } })\<close>, keyed by \<^verbatim>\<open>_id.toString()\<close>. The query casts
  every id to an ObjectId first and rejects with a CastError at the first one that is not
  ObjectId text; otherwise it yields the documents stored under the ids given.
\<close>

definition snapshot :: "string option list \<Rightarrow> db \<Rightarrow> (string \<rightharpoonup> product)" where
  "snapshot ids d = (\<lambda>k. if Some k \<in> set ids then products d k else None)"

definition findProducts ::
  "env \<Rightarrow> string option list \<Rightarrow> db \<Rightarrow> error + (string \<rightharpoonup> product)" where
  "findProducts ev ids d =
     (case filter (\<lambda>v. \<not> isObjectIdText (showS v)) ids of
        [] \<Rightarrow> Inr (snapshot ids d)
      | v # rest \<Rightarrow> Inl (CastError (castText ev (showS v))))"

text \<open>
  The \<^verbatim>\<open>productMap\<close> (lines 422-425), read once, before the loop; with no id to look
  for, the query is not sent.
\<close>

definition productMap :: "env \<Rightarrow> item list \<Rightarrow> db \<Rightarrow> error + (string \<rightharpoonup> product)" where
  "productMap ev items d =
     (if productIds items \<noteq> [] then findProducts ev (productIds items) d
      else Inr Map.empty)"

text \<open>\<^verbatim>\<open>productMap.get(item.productId?.toString())\<close>\<close>

definition mapGet :: "(string \<rightharpoonup> product) \<Rightarrow> string option \<Rightarrow> product option" where
  "mapGet pm pid = (case pid of None \<Rightarrow> None | Some k \<Rightarrow> pm k)"

definition notFound :: "item \<Rightarrow> error" where
  "notFound it = Error (''Product not found with ID: '' @ showS (it_productId it))"

definition insufficient :: "env \<Rightarrow> product \<Rightarrow> int \<Rightarrow> int \<Rightarrow> error" where
  "insufficient ev product currentStock qty =
     Error (''Insufficient stock for '' @ p_name product @ ''. Available: ''
            @ numberText ev currentStock @ '', Requested: '' @ numberText ev qty)"

definition status :: "request \<Rightarrow> string" where
  "status rq = withDefault (rq_status rq) ''completed''"

text \<open>
  \<^verbatim>\<open>Product.findByIdAndUpdate(id, update, { session })\<close>: the document with that id, if
  there is one, is replaced by its update inside the session. (The id that line 474 hands
  over is one the \<^verbatim>\<open>productMap\<close> holds, so it is ObjectId text and its cast succeeds.)
\<close>

definition findByIdAndUpdate :: "string option \<Rightarrow> (product \<Rightarrow> product) \<Rightarrow> db \<Rightarrow> db" where
  "findByIdAndUpdate pid upd d =
     (case pid of
        None \<Rightarrow> d
      | Some k \<Rightarrow>
          (case products d k of
             None \<Rightarrow> d
           | Some p \<Rightarrow> d\<lparr>products := (products d)(k \<mapsto> upd p)\<rparr>))"

text \<open>
  What the update document of lines 475-489 stores: the stock, and one more entry of the
  history.
\<close>

definition saleUpdate :: "env \<Rightarrow> request \<Rightarrow> int \<Rightarrow> int \<Rightarrow> product \<Rightarrow> product" where
  "saleUpdate ev rq qty newStock p =
     p\<lparr>p_currentStock := newStock,
       p_stockHistory := p_stockHistory p @
         [\<lparr>sh_date = now ev, sh_type = ''sale'', sh_quantity = - qty, sh_newStock = newStock,
           sh_reference = ''Transaction: '' @ orS (rq_transactionNumber rq) ''pending''\<rparr>]\<rparr>"

text \<open>
  One pass of the loop body. The result pairs what the pass returns or throws with the
  database as the session sees it at that moment. \<^verbatim>\<open>currentStock\<close> is read from the
  \<^verbatim>\<open>productMap\<close> entry, not from the session.
\<close>

definition processItem ::
  "env \<Rightarrow> request \<Rightarrow> (string \<rightharpoonup> product) \<Rightarrow> item \<Rightarrow> acc \<times> db \<Rightarrow> (error + acc) \<times> db" where
  "processItem ev rq pm it ad =
     (case mapGet pm (it_productId it) of
        None \<Rightarrow> (Inl (notFound it), snd ad)
      | Some product \<Rightarrow>
          (let currentStock = orI (Some (p_currentStock product)) 0 in
           if status rq = ''completed'' \<and> currentStock < itemQuantity it
           then (Inl (insufficient ev product currentStock (itemQuantity it)), snd ad)
           else
             (let a = fst ad;
                  a1 = a\<lparr>calculatedTotalAmount := calculatedTotalAmount a + itemTotalPrice it product,
                         calculatedTotalCost := calculatedTotalCost a + itemCost it product,
                         calculatedTotalProfit := calculatedTotalProfit a + itemProfit it product,
                         transactionItems := transactionItems a @ [priceItem it product]\<rparr>
              in if status rq = ''completed''
                 then
                   (let newStock = max 0 (currentStock - itemQuantity it) in
                    (Inr (a1\<lparr>stockUpdates := stockUpdates a1 @
                               [\<lparr>su_productId = it_productId it, su_productName = p_name product,
                                 su_oldStock = currentStock, su_newStock = newStock,
                                 su_quantitySold = itemQuantity it\<rparr>]\<rparr>),
                     findByIdAndUpdate (it_productId it)
                       (saleUpdate ev rq (itemQuantity it) newStock) (snd ad)))
                 else (Inr a1, snd ad))))"

text \<open>\<^verbatim>\<open>for (const item of items)\<close>: a throw leaves the loop.\<close>

fun processItems ::
  "env \<Rightarrow> request \<Rightarrow> (string \<rightharpoonup> product) \<Rightarrow> item list \<Rightarrow> acc \<times> db \<Rightarrow> (error + acc) \<times> db" where
  "processItems ev rq pm [] ad = (Inr (fst ad), snd ad)"
| "processItems ev rq pm (it # its) ad =
     (case processItem ev rq pm it ad of
        (Inl e, d) \<Rightarrow> (Inl e, d)
      | (Inr a, d) \<Rightarrow> processItems ev rq pm its (a, d))"

text \<open>
  Lines 421-504 together: the query, then the loop. What they return or throw, and the
  database as the session sees it then.
\<close>

definition itemLoop :: "env \<Rightarrow> request \<Rightarrow> db \<Rightarrow> (error + acc) \<times> db" where
  "itemLoop ev rq d =
     (case productMap ev (withDefault (rq_items rq) []) d of
        Inl e \<Rightarrow> (Inl e, d)
      | Inr pm \<Rightarrow> processItems ev rq pm (withDefault (rq_items rq) []) (acc0, d))"

section \<open>Totals, the transaction document and the response (lines 505-618)\<close>

text \<open>
  Lines 508 and 509 read \<^verbatim>\<open>totalCost\<close> and \<^verbatim>\<open>totalProfit\<close>. Neither is among the names
  destructured from \<^verbatim>\<open>req.body\<close> (lines 361-382), declared in the handler, or declared at
  the top level of the module (the other \<^verbatim>\<open>const totalCost\<close> of the file are local to
  other functions). A scope gives each free identifier its binding, if it has one; reading
  an identifier without a binding throws a ReferenceError. \<^verbatim>\<open>moduleScope\<close> is the scope of
  the source file: it binds neither.
\<close>

type_synonym scope = "string \<Rightarrow> rat option option"

definition readIdentifier :: "scope \<Rightarrow> string \<Rightarrow> error + rat option" where
  "readIdentifier sc x =
     (case sc x of None \<Rightarrow> Inl (ReferenceError (x @ '' is not defined'')) | Some v \<Rightarrow> Inr v)"

definition moduleScope :: scope where
  "moduleScope = (\<lambda>x. None)"

text \<open>
  Lines 506-541, given the values \<open>totalCost\<close> and \<open>totalProfit\<close> that the two identifiers
  evaluate to.
\<close>

definition finalTotalAmount :: "request \<Rightarrow> acc \<Rightarrow> rat" where
  "finalTotalAmount rq a = orN (rq_totalAmount rq) (calculatedTotalAmount a)"

definition finalTransactionNumber :: "env \<Rightarrow> request \<Rightarrow> string" where
  "finalTransactionNumber ev rq =
     orS (rq_transactionNumber rq) (''TXN-'' @ numberText ev (int (now ev)) @ ''-'' @ toUpperCase (rnd ev))"

definition newTransaction ::
  "env \<Rightarrow> request \<Rightarrow> acc \<Rightarrow> rat option \<Rightarrow> rat option \<Rightarrow> transaction" where
  "newTransaction ev rq a totalCost totalProfit =
     (let finalTotalCost = orN totalCost (calculatedTotalCost a);
          finalTotalProfit = orN totalProfit (calculatedTotalProfit a);
          profitMargin = (if finalTotalAmount rq a > 0
                          then (finalTotalProfit / finalTotalAmount rq a) * 100 else 0)
      in \<lparr>tx_saleType = withDefault (rq_saleType rq) ''retail'',
          tx_status = status rq,
          tx_paymentMethod = toLowerCase (showS (rq_paymentMethod rq)),
          tx_totalAmount = finalTotalAmount rq a,
          tx_amountPaid = orN (rq_amountPaid rq) (finalTotalAmount rq a),
          tx_changeGiven = withDefault (rq_changeGiven rq) 0,
          tx_subtotal = orN (rq_subtotal rq) (finalTotalAmount rq a),
          tx_taxAmount = withDefault (rq_taxAmount rq) 0,
          tx_discountAmount = withDefault (rq_discountAmount rq) 0,
          tx_items = transactionItems a,
          tx_customerName = withDefault (rq_customerName rq) ''Walk-in Customer'',
          tx_customerPhone = withDefault (rq_customerPhone rq) [],
          tx_shop = showS (finalShopId rq),
          tx_shopName = finalShopName rq,
          tx_cashierId = showS (rq_cashierId rq),
          tx_cashierName = showS (rq_cashierName rq),
          tx_saleDate = (if truthyS (rq_saleDate rq) then Parsed (showS (rq_saleDate rq))
                         else At (now ev)),
          tx_notes = withDefault (rq_notes rq) [],
          tx_transactionNumber = finalTransactionNumber ev rq,
          tx_receiptNumber = ''RCP-'' @ numberText ev (int (now ev)),
          tx_totalCost = finalTotalCost,
          tx_totalProfit = finalTotalProfit,
          tx_profitMargin = profitMargin,
          tx_createdBy = orS (userId ev) ''system''\<rparr>)"

text \<open>
  Modelled from the spec: \<^verbatim>\<open>models/Transaction.js\<close> is not among the sources, so what
  \<^verbatim>\<open>transaction.save({ session })\<close> validates or rewrites is not known. Following section 4.4
  step 4 of the specification ("construct the immutable Transaction record ... and insert
  it"), saving appends the document as constructed to the transaction ledger, and
  \<^verbatim>\<open>Transaction.findById\<close> reads the same document back.
\<close>

definition saveTransaction :: "transaction \<Rightarrow> db \<Rightarrow> db" where
  "saveTransaction t d = d\<lparr>transactions := transactions d @ [t]\<rparr>"

text \<open>The items of the response (lines 575-595), from the stored lines.\<close>

definition enhanceItem :: "line \<Rightarrow> enhancedItem" where
  "enhanceItem l =
     (let itemCost = orN (Some (li_costPrice l)) 0 * of_int (orI (Some (li_quantity l)) 0);
          itemProfit = orN (Some (li_profit l)) (orN (Some (li_totalPrice l)) 0 - itemCost);
          itemProfitMargin =
            orN (Some (li_profitMargin l))
              (if orN (Some (li_totalPrice l)) 0 > 0
               then (itemProfit / orN (Some (li_totalPrice l)) 0) * 100 else 0)
      in \<lparr>ei_productName = orS (Some (li_productName l)) ''Unknown Product'',
          ei_quantity = orI (Some (li_quantity l)) 0,
          ei_price = orN (Some (li_unitPrice l)) (orN (Some (li_price l)) 0),
          ei_totalPrice = orN (Some (li_totalPrice l)) 0,
          ei_cost = itemCost,
          ei_profit = itemProfit,
          ei_profitMargin = itemProfitMargin,
          ei_category = orS (Some (li_category l)) ''Uncategorized'',
          ei_barcode = orS (Some (li_barcode l)) [],
          ei_unitPrice = orN (Some (li_unitPrice l)) (orN (Some (li_price l)) 0),
          ei_costPrice = orN (Some (li_costPrice l)) 0\<rparr>)"

text \<open>
  \<^verbatim>\<open>enhancedTransaction\<close> (lines 563-596). The populated references are left out, and
  \<^verbatim>\<open>populatedTransaction.totalCost || finalTotalCost\<close> and its like, whose two sides are
  the same stored value, are written as that value.
\<close>

definition enhancedTransaction :: "transaction \<Rightarrow> enhanced" where
  "enhancedTransaction t =
     \<lparr>en_transaction = t,
      en_transactionNumber = tx_transactionNumber t,
      en_cashierName = orS (Some (tx_cashierName t)) ''Unknown Cashier'',
      en_customerName = orS (Some (tx_customerName t)) ''Walk-in Customer'',
      en_totalCost = tx_totalCost t,
      en_totalProfit = tx_totalProfit t,
      en_profitMargin = tx_profitMargin t,
      en_cost = tx_totalCost t,
      en_profit = tx_totalProfit t,
      en_saleDate = tx_saleDate t,
      en_itemsCount = sum_list (map (\<lambda>l. orI (Some (li_quantity l)) 0) (tx_items t)),
      en_items = map enhanceItem (tx_items t)\<rparr>"

text \<open>The 201 body (lines 598-618).\<close>

definition created :: "env \<Rightarrow> request \<Rightarrow> acc \<Rightarrow> transaction \<Rightarrow> response" where
  "created ev rq a t =
     \<lparr>rs_status = 201, rs_success = True, rs_message = ''Transaction completed successfully'',
      rs_code = None, rs_error = None, rs_errors = None,
      rs_data = Some (enhancedTransaction t),
      rs_shopInfo = Some (showS (finalShopId rq), finalShopName rq),
      rs_stockUpdate = Some \<lparr>ss_productsUpdated = length (stockUpdates a),
                              ss_updates = stockUpdates a,
                              ss_message = ''Product stock reduced successfully''\<rparr>,
      rs_summary = Some \<lparr>sm_transactionNumber = finalTransactionNumber ev rq,
                          sm_totalAmount = finalTotalAmount rq a,
                          sm_totalItems =
                            sum_list (map (\<lambda>l. orI (Some (li_quantity l)) 0) (transactionItems a)),
                          sm_paymentMethod = showS (rq_paymentMethod rq),
                          sm_timestamp = now ev\<rparr>\<rparr>"

section \<open>The unit of work and the handler (lines 354-651)\<close>

text \<open>
  The callback of \<^verbatim>\<open>session.withTransaction\<close>: what it sends or throws, and the database
  as its session sees it when it ends. An early \<^verbatim>\<open>return res.status(400)\<close> is a normal
  return of the callback.
\<close>

definition saleBody :: "scope \<Rightarrow> env \<Rightarrow> request \<Rightarrow> db \<Rightarrow> (error + response) \<times> db" where
  "saleBody sc ev rq d =
     (if \<not> truthyS (finalShopId rq) then (Inr shopRequired, d)
      else
        (case validationErrors rq of
           Inl e \<Rightarrow> (Inl e, d)
         | Inr errs \<Rightarrow>
             if length errs > 0 then (Inr (validationFailed errs), d)
             else
               (case itemLoop ev rq d of
                  (Inl e, d1) \<Rightarrow> (Inl e, d1)
                | (Inr a, d1) \<Rightarrow>
                    (case readIdentifier sc ''totalCost'' of
                       Inl e \<Rightarrow> (Inl e, d1)
                     | Inr totalCost \<Rightarrow>
                         (case readIdentifier sc ''totalProfit'' of
                            Inl e \<Rightarrow> (Inl e, d1)
                          | Inr totalProfit \<Rightarrow>
                              (let t = newTransaction ev rq a totalCost totalProfit
                               in (Inr (created ev rq a t), saveTransaction t d1)))))))"

text \<open>
  \<^verbatim>\<open>session.withTransaction(callback)\<close>: the writes of the session are committed when the
  callback returns and discarded when it throws; the throw goes on to the caller. (The
  driver's retry on a transient error is not modelled.)
\<close>

definition withTransaction :: "(db \<Rightarrow> (error + 'a) \<times> db) \<Rightarrow> db \<Rightarrow> (error + 'a) \<times> db" where
  "withTransaction callback d =
     (case callback d of
        (Inl e, d1) \<Rightarrow> (Inl e, d)
      | (Inr r, d1) \<Rightarrow> (Inr r, d1))"

text \<open>The \<^verbatim>\<open>catch\<close> block (lines 620-648).\<close>

definition catchResponse :: "error \<Rightarrow> response" where
  "catchResponse e =
     (if includesText (message e) ''Insufficient stock''
      then (plainResponse 400 ''Stock validation failed'')
             \<lparr>rs_error := Some (message e), rs_code := Some ''INSUFFICIENT_STOCK''\<rparr>
      else if includesText (message e) ''Product not found''
      then (plainResponse 404 ''Product not found'')
             \<lparr>rs_error := Some (message e), rs_code := Some ''PRODUCT_NOT_FOUND''\<rparr>
      else (plainResponse 500 ''Failed to process transaction'')
             \<lparr>rs_error := Some (message e), rs_code := Some ''TRANSACTION_FAILED''\<rparr>)"

text \<open>The handler in a given scope: the response sent and the database afterwards.\<close>

definition processSaleIn :: "scope \<Rightarrow> env \<Rightarrow> request \<Rightarrow> db \<Rightarrow> response \<times> db" where
  "processSaleIn sc ev rq d =
     (case withTransaction (saleBody sc ev rq) d of
        (Inl e, d1) \<Rightarrow> (catchResponse e, d1)
      | (Inr r, d1) \<Rightarrow> (r, d1))"

text \<open>The handler as the source file has it.\<close>

definition processSale :: "env \<Rightarrow> request \<Rightarrow> db \<Rightarrow> response \<times> db" where
  "processSale = processSaleIn moduleScope"

section \<open>Conditions on a cart, and concrete scenarios\<close>

text \<open>
  Every product id that the cart gives is ObjectId text, so the query of line 424 does
  not reject.
\<close>

definition castable :: "item list \<Rightarrow> bool" where
  "castable items = list_all (\<lambda>v. isObjectIdText (showS v)) (productIds items)"

text \<open>
  A line names a product of the catalog by ObjectId text; a line asks for more than the
  stock of the product it names; and a line passes the two guards at the head of the
  loop body (lines 429-442): it names a product and, for a completed sale, asks for no
  more than its stock.
\<close>

definition resolves :: "db \<Rightarrow> item \<Rightarrow> bool" where
  "resolves d it =
     (case it_productId it of
        None \<Rightarrow> False
      | Some k \<Rightarrow> isObjectIdText k \<and> products d k \<noteq> None)"

definition exceeds :: "db \<Rightarrow> item \<Rightarrow> bool" where
  "exceeds d it =
     (case mapGet (products d) (it_productId it) of
        None \<Rightarrow> False
      | Some product \<Rightarrow> p_currentStock product < itemQuantity it)"

definition passes :: "request \<Rightarrow> db \<Rightarrow> item \<Rightarrow> bool" where
  "passes rq d it = (resolves d it \<and> \<not> (status rq = ''completed'' \<and> exceeds d it))"

text \<open>
  A scope in which the two identifiers are declared and hold \<^verbatim>\<open>undefined\<close>: what
  destructuring \<^verbatim>\<open>totalCost\<close> and \<^verbatim>\<open>totalProfit\<close> from a body without these fields
  would give. It is not the scope of the source file.
\<close>

definition declaredScope :: scope where
  "declaredScope = (\<lambda>x. Some None)"




text \<open>
  The ids of the scenarios: \<open>idP\<close> and \<open>idQ\<close> are in the catalog, \<open>idX\<close> is ObjectId text
  that names nothing.
\<close>

definition idP :: string where
  "idP = ''64b7f0a1c2d3e4f5a6b7c8d1''"

definition idQ :: string where
  "idQ = ''64b7f0a1c2d3e4f5a6b7c8d2''"

definition idX :: string where
  "idX = ''64b7f0a1c2d3e4f5a6b7c8d9''"

text \<open>
  The product of the specification's scenarios: \<^verbatim>\<open>buyingPrice = 5\<close>,
  \<^verbatim>\<open>minSellingPrice = 8\<close>, with a given stock; and a second product.
\<close>

definition productP :: "int \<Rightarrow> product" where
  "productP stock =
     \<lparr>p_name = ''P'', p_category = ''Drinks'', p_barcode = None, p_buyingPrice = 5,
      p_minSellingPrice = 8, p_sellingPrice = None, p_currentStock = stock,
      p_stockHistory = []\<rparr>"

definition productQ :: "int \<Rightarrow> product" where
  "productQ stock =
     \<lparr>p_name = ''Q'', p_category = ''Snacks'', p_barcode = None, p_buyingPrice = 2,
      p_minSellingPrice = 3, p_sellingPrice = None, p_currentStock = stock,
      p_stockHistory = []\<rparr>"

text \<open>A catalog holding \<open>P\<close> under \<open>idP\<close>, and one holding \<open>Q\<close> under \<open>idQ\<close> as well.\<close>

definition shelf :: "int \<Rightarrow> db" where
  "shelf stock = \<lparr>products = [idP \<mapsto> productP stock], transactions = []\<rparr>"

definition shelf2 :: "int \<Rightarrow> int \<Rightarrow> db" where
  "shelf2 stockP stockQ =
     \<lparr>products = [idP \<mapsto> productP stockP, idQ \<mapsto> productQ stockQ], transactions = []\<rparr>"

text \<open>A line with a product id and a quantity, and nothing else.\<close>

definition cartLine :: "string \<Rightarrow> int \<Rightarrow> item" where
  "cartLine pid qty =
     \<lparr>it_productId = Some pid, it_productName = None, it_category = None, it_barcode = None,
      it_quantity = Some qty, it_unitPrice = None, it_price = None, it_totalPrice = None\<rparr>"

text \<open>
  A request that passes validation: paid in cash, with shop and cashier, the status left
  to its default \<^verbatim>\<open>completed\<close>.
\<close>

definition saleRequest :: "rat \<Rightarrow> item list \<Rightarrow> request" where
  "saleRequest amount items =
     \<lparr>rq_saleType = None, rq_status = None, rq_paymentMethod = Some ''cash'',
      rq_totalAmount = Some amount, rq_amountPaid = None, rq_changeGiven = None,
      rq_subtotal = None, rq_taxAmount = None, rq_discountAmount = None,
      rq_items = Some items, rq_customerName = None, rq_customerPhone = None,
      rq_shop = Some ''shop1'', rq_shopId = None, rq_shopName = None,
      rq_cashierId = Some ''c1'', rq_cashierName = Some ''Ann'', rq_saleDate = None,
      rq_notes = None, rq_transactionNumber = None\<rparr>"

text \<open>
  Surroundings for the scenarios. The two texts of the engine and of Mongoose are not
  asked for there: the numbers are small and the ids are ObjectId text.
\<close>

definition env0 :: env where
  "env0 = \<lparr>now = 1700, rnd = ''a1b2c'', userId = Some ''u1'', bigNumberText = showInt,
           castText = (\<lambda>v. ''Cast to ObjectId failed'')\<rparr>"

text \<open>
  Two requests that break validation rules: one without any shop and with
  \<^verbatim>\<open>totalAmount = 0\<close>; one with a shop, paid by cheque, with \<^verbatim>\<open>totalAmount = 0\<close> and no
  cashier name.
\<close>

definition noShopRequest :: request where
  "noShopRequest = (saleRequest 0 [cartLine idP 1])\<lparr>rq_shop := None\<rparr>"

definition chequeRequest :: request where
  "chequeRequest =
     (saleRequest 0 [cartLine idP 1])\<lparr>rq_paymentMethod := Some ''cheque'',
                                      rq_cashierName := None\<rparr>"

text \<open>Scenario A with \<^verbatim>\<open>amountPaid = 0\<close> and with \<^verbatim>\<open>amountPaid = 50\<close> handed over.\<close>

definition zeroPaidRequest :: request where
  "zeroPaidRequest = (saleRequest 24 [cartLine idP 3])\<lparr>rq_amountPaid := Some 0\<rparr>"

definition paidRequest :: request where
  "paidRequest = (saleRequest 24 [cartLine idP 3])\<lparr>rq_amountPaid := Some 50\<rparr>"

section \<open>Helper facts\<close>

subsection \<open>Error messages and the catch block\<close>

lemma includesText_Nil: "includesText s []"
  by (cases s) simp_all

lemma includesText_head: "includesText s (c # t) \<Longrightarrow> c \<in> set s"
proof (induction s)
  case Nil
  then show ?case by simp
next
  case (Cons x xs)
  then show ?case by (auto simp: take_Cons')
qed

lemma insufficient_includes:
  "includesText (message (insufficient ev p s q)) ''Insufficient stock''"
  by (simp add: insufficient_def)

lemma notFound_includes:
  "includesText (message (notFound it)) ''Product not found''"
  by (simp add: notFound_def)

lemma notFound_insufficient:
  "includesText (message (notFound it)) ''Insufficient stock''
     = includesText (showS (it_productId it)) ''Insufficient stock''"
  by (simp add: notFound_def)

lemma catchResponse_insufficient:
  "catchResponse (insufficient ev p s q)
     = (plainResponse 400 ''Stock validation failed'')
         \<lparr>rs_error := Some (message (insufficient ev p s q)),
          rs_code := Some ''INSUFFICIENT_STOCK''\<rparr>"
  using insufficient_includes [of ev p s q] by (simp add: catchResponse_def)

lemma catchResponse_notFound:
  "\<not> includesText (showS (it_productId it)) ''Insufficient stock'' \<Longrightarrow>
   catchResponse (notFound it)
     = (plainResponse 404 ''Product not found'')
         \<lparr>rs_error := Some (message (notFound it)), rs_code := Some ''PRODUCT_NOT_FOUND''\<rparr>"
  using notFound_includes [of it] notFound_insufficient [of it]
  by (simp add: catchResponse_def)


text \<open>The text of an ObjectId holds no \<open>I\<close>, so it does not read as an insufficient stock.\<close>

lemma objectId_not_insufficient:
  assumes "isObjectIdText k"
  shows "\<not> includesText k ''Insufficient stock''"
proof
  assume "includesText k ''Insufficient stock''"
  then have "CHR ''I'' \<in> set k" by (rule includesText_head)
  with assms have "isHexDigit CHR ''I''" by (auto simp: isObjectIdText_def list_all_iff)
  then show False by (simp add: isHexDigit_def)
qed

subsection \<open>The ids of the scenarios\<close>

lemma ids_objectId [simp]: "isObjectIdText idP" "isObjectIdText idQ" "isObjectIdText idX"
  by (simp_all add: isObjectIdText_def isHexDigit_def idP_def idQ_def idX_def)

lemma ids_distinct [simp]:
  "idP \<noteq> idQ" "idQ \<noteq> idP" "idP \<noteq> idX" "idX \<noteq> idP" "idQ \<noteq> idX" "idX \<noteq> idQ"
  "idP \<noteq> []" "idQ \<noteq> []" "idX \<noteq> []"
  by (simp_all add: idP_def idQ_def idX_def)

subsection \<open>The loop\<close>

lemmas js_defs = truthyN_def truthyI_def truthyS_def orN_def orI_def orS_def orElseN_def
  orElseS_def withDefault_def showS_def

lemmas loop_defs = itemLoop_def processItem_def mapGet_def productMap_def findProducts_def
  snapshot_def productIds_def status_def
  itemQuantity_def itemPrice_def itemCostPrice_def itemTotalPrice_def itemCost_def
  itemProfit_def priceItem_def findByIdAndUpdate_def saleUpdate_def finalShopId_def
  insufficient_def notFound_def acc0_def

lemmas scenario_defs = cartLine_def saleRequest_def productP_def productQ_def shelf_def
  shelf2_def

lemma orI_Some [simp]: "orI (Some (x::int)) 0 = x"
  by (simp add: orI_def)

lemma processItem_notFound:
  "mapGet pm (it_productId it) = None \<Longrightarrow>
   processItem ev rq pm it ad = (Inl (notFound it), snd ad)"
  by (simp add: processItem_def)

lemma processItem_insufficient:
  "mapGet pm (it_productId it) = Some p \<Longrightarrow> status rq = ''completed'' \<Longrightarrow>
   p_currentStock p < itemQuantity it \<Longrightarrow>
   processItem ev rq pm it ad
     = (Inl (insufficient ev p (p_currentStock p) (itemQuantity it)), snd ad)"
  by (simp add: processItem_def)

lemma processItem_goes_on:
  assumes "mapGet pm (it_productId it) = Some p"
    and "\<not> (status rq = ''completed'' \<and> p_currentStock p < itemQuantity it)"
  shows "\<exists>a1 d1. processItem ev rq pm it ad = (Inr a1, d1)"
  using assms by (auto simp: processItem_def Let_def)

lemma processItems_go_on:
  "list_all (\<lambda>i. \<exists>p. mapGet pm (it_productId i) = Some p
        \<and> \<not> (status rq = ''completed'' \<and> p_currentStock p < itemQuantity i)) pre \<Longrightarrow>
   \<exists>a1 d1. processItems ev rq pm pre ad = (Inr a1, d1)"
proof (induction pre arbitrary: ad)
  case Nil
  then show ?case by simp
next
  case (Cons x xs)
  from Cons.prems obtain p where "mapGet pm (it_productId x) = Some p"
    "\<not> (status rq = ''completed'' \<and> p_currentStock p < itemQuantity x)" by auto
  then obtain a1 d1 where "processItem ev rq pm x ad = (Inr a1, d1)"
    using processItem_goes_on by blast
  moreover from Cons.prems have "list_all (\<lambda>i. \<exists>p. mapGet pm (it_productId i) = Some p
        \<and> \<not> (status rq = ''completed'' \<and> p_currentStock p < itemQuantity i)) xs" by simp
  ultimately show ?case using Cons.IH by simp
qed

lemma processItems_append_fail:
  "processItems ev rq pm pre ad = (Inr a1, d1) \<Longrightarrow>
   processItem ev rq pm it (a1, d1) = (Inl e, d2) \<Longrightarrow>
   processItems ev rq pm (pre @ it # post) ad = (Inl e, d2)"
proof (induction pre arbitrary: ad)
  case Nil
  then show ?case by (cases ad) simp
next
  case (Cons x xs)
  then show ?case
    by (auto split: prod.splits sum.splits)
qed

text \<open>
  With ids that cast, the \<^verbatim>\<open>productMap\<close> is the catalog cut down to the ids of the cart,
  and a line with a truthy id finds there what the catalog holds.
\<close>

lemma productMap_castable:
  assumes "castable items"
  shows "productMap ev items d = Inr (snapshot (productIds items) d)"
proof -
  from assms have "filter (\<lambda>v. \<not> isObjectIdText (showS v)) (productIds items) = []"
    by (simp add: castable_def filter_empty_conv list_all_iff)
  moreover have "snapshot [] d = Map.empty" by (simp add: snapshot_def)
  ultimately show ?thesis by (simp add: productMap_def findProducts_def)
qed

lemma snapshot_get:
  assumes "it \<in> set items"
  shows "mapGet (snapshot (productIds items) d) (it_productId it)
     = (if truthyS (it_productId it) then mapGet (products d) (it_productId it) else None)"
proof (cases "it_productId it")
  case None
  then show ?thesis by (simp add: mapGet_def truthyS_def)
next
  case (Some k)
  show ?thesis
  proof (cases "k = []")
    case True
    have "Some [] \<notin> set (productIds items)"
      by (auto simp: productIds_def truthyS_def)
    with Some True show ?thesis
      by (simp add: mapGet_def truthyS_def snapshot_def)
  next
    case False
    with Some assms have "Some k \<in> set (productIds items)"
      by (force simp: productIds_def truthyS_def)
    with Some False show ?thesis
      by (auto simp: mapGet_def truthyS_def snapshot_def)
  qed
qed

lemma itemLoop_castable:
  assumes "rq_items rq = Some items" and "castable items"
  shows "itemLoop ev rq d = processItems ev rq (snapshot (productIds items) d) items (acc0, d)"
  using assms by (simp add: itemLoop_def withDefault_def productMap_castable)

lemma resolves_get:
  assumes "resolves d it" and "it \<in> set items"
  shows "\<exists>p. mapGet (products d) (it_productId it) = Some p
       \<and> mapGet (snapshot (productIds items) d) (it_productId it) = Some p"
proof -
  from assms(1) obtain k p where k: "it_productId it = Some k" "isObjectIdText k"
      "products d k = Some p"
    by (auto simp: resolves_def split: option.splits)
  from k(2) have "k \<noteq> []" by (auto simp: isObjectIdText_def)
  with k(1) have "truthyS (it_productId it)" by (simp add: truthyS_def)
  with snapshot_get [OF assms(2), of d] k(1,3) show ?thesis by (simp add: mapGet_def)
qed

lemma resolves_castable: "list_all (resolves d) items \<Longrightarrow> castable items"
  by (auto simp: castable_def resolves_def productIds_def list_all_iff showS_def
        split: option.splits)

lemma findByIdAndUpdate_transactions [simp]:
  "transactions (findByIdAndUpdate pid upd d) = transactions d"
  by (simp add: findByIdAndUpdate_def split: option.splits)

lemma processItem_transactions:
  "transactions (snd (processItem ev rq pm it ad)) = transactions (snd ad)"
  by (simp add: processItem_def Let_def split: option.splits)

lemma processItems_transactions:
  "transactions (snd (processItems ev rq pm its ad)) = transactions (snd ad)"
proof (induction its arbitrary: ad)
  case Nil
  then show ?case by simp
next
  case (Cons x xs)
  show ?case
  proof (cases "processItem ev rq pm x ad")
    case (Pair r d1)
    with processItem_transactions [of ev rq pm x ad]
    have t: "transactions d1 = transactions (snd ad)" by simp
    show ?thesis
    proof (cases r)
      case (Inl e)
      with Pair t show ?thesis by simp
    next
      case (Inr a)
      with Pair t Cons.IH [of "(a, d1)"] show ?thesis by simp
    qed
  qed
qed

lemma itemLoop_transactions:
  "transactions (snd (itemLoop ev rq d)) = transactions d"
  using processItems_transactions [of ev rq _ "withDefault (rq_items rq) []" "(acc0, d)"]
  by (simp add: itemLoop_def split: sum.splits)

subsection \<open>The handler\<close>

lemma saleBody_valid:
  "truthyS (finalShopId rq) \<Longrightarrow> validationErrors rq = Inr [] \<Longrightarrow>
   saleBody sc ev rq d =
     (case itemLoop ev rq d of
        (Inl e, d1) \<Rightarrow> (Inl e, d1)
      | (Inr a, d1) \<Rightarrow>
          (case readIdentifier sc ''totalCost'' of
             Inl e \<Rightarrow> (Inl e, d1)
           | Inr totalCost \<Rightarrow>
               (case readIdentifier sc ''totalProfit'' of
                  Inl e \<Rightarrow> (Inl e, d1)
                | Inr totalProfit \<Rightarrow>
                    (Inr (created ev rq a (newTransaction ev rq a totalCost totalProfit)),
                     saveTransaction (newTransaction ev rq a totalCost totalProfit) d1))))"
  by (simp add: saleBody_def Let_def split: prod.splits sum.splits)

lemma processSaleIn_loop_throws:
  "truthyS (finalShopId rq) \<Longrightarrow> validationErrors rq = Inr [] \<Longrightarrow>
   itemLoop ev rq d = (Inl e, d1) \<Longrightarrow>
   processSaleIn sc ev rq d = (catchResponse e, d)"
  by (simp add: processSaleIn_def withTransaction_def saleBody_valid)

lemma saleRequest_valid:
  "items \<noteq> [] \<Longrightarrow> 0 < amount \<Longrightarrow>
   truthyS (finalShopId (saleRequest amount items))
   \<and> validationErrors (saleRequest amount items) = Inr []"
  by (simp add: saleRequest_def finalShopId_def orElseS_def truthyS_def truthyN_def
        validationErrors_def withDefault_def acceptedMethods_def toLowerCase_def lowerChar_def)

lemma saleRequest_fields [simp]:
  "rq_items (saleRequest amount items) = Some items"
  "status (saleRequest amount items) = ''completed''"
  by (simp_all add: saleRequest_def status_def withDefault_def)

text \<open>
  The loop stops at the first line that fails a guard: with ids that cast, lines that go
  through before \<open>it\<close> and a line \<open>it\<close> that throws, the handler answers for \<open>it\<close> and
  the database is as before.
\<close>

lemma first_failure:
  assumes "truthyS (finalShopId rq)" and "validationErrors rq = Inr []"
    and "rq_items rq = Some (pre @ it # post)" and "castable (pre @ it # post)"
    and "list_all (passes rq d) pre"
    and "\<And>ad. processItem ev rq (snapshot (productIds (pre @ it # post)) d) it ad
            = (Inl e, snd ad)"
  shows "processSaleIn sc ev rq d = (catchResponse e, d)"
proof -
  let ?pm = "snapshot (productIds (pre @ it # post)) d"
  have "list_all (\<lambda>i. \<exists>p. mapGet ?pm (it_productId i) = Some p
        \<and> \<not> (status rq = ''completed'' \<and> p_currentStock p < itemQuantity i)) pre"
    unfolding list_all_iff
  proof
    fix i assume i: "i \<in> set pre"
    with assms(5) have p: "resolves d i" "\<not> (status rq = ''completed'' \<and> exceeds d i)"
      by (auto simp: passes_def list_all_iff)
    from i have "i \<in> set (pre @ it # post)" by simp
    from resolves_get [OF p(1) this] obtain q where
      q: "mapGet (products d) (it_productId i) = Some q" "mapGet ?pm (it_productId i) = Some q"
      by blast
    with p(2) show "\<exists>p. mapGet ?pm (it_productId i) = Some p
        \<and> \<not> (status rq = ''completed'' \<and> p_currentStock p < itemQuantity i)"
      by (auto simp: exceeds_def)
  qed
  then obtain a1 d1 where pre: "processItems ev rq ?pm pre (acc0, d) = (Inr a1, d1)"
    using processItems_go_on by blast
  have "processItem ev rq ?pm it (a1, d1) = (Inl e, d1)"
    using assms(6) [of "(a1, d1)"] by simp
  with pre have "processItems ev rq ?pm (pre @ it # post) (acc0, d) = (Inl e, d1)"
    by (rule processItems_append_fail)
  with itemLoop_castable [OF assms(3,4), of ev d] have "itemLoop ev rq d = (Inl e, d1)"
    by simp
  with assms(1,2) show ?thesis by (rule processSaleIn_loop_throws)
qed

lemma first_failure_notFound:
  assumes "truthyS (finalShopId rq)" and "validationErrors rq = Inr []"
    and "rq_items rq = Some (pre @ it # post)" and "castable (pre @ it # post)"
    and "list_all (passes rq d) pre"
    and "mapGet (products d) (it_productId it) = None"
  shows "processSaleIn sc ev rq d = (catchResponse (notFound it), d)"
proof -
  have "mapGet (snapshot (productIds (pre @ it # post)) d) (it_productId it) = None"
    using assms(6) by (simp add: snapshot_get)
  then have "\<And>ad. processItem ev rq (snapshot (productIds (pre @ it # post)) d) it ad
       = (Inl (notFound it), snd ad)"
    by (rule processItem_notFound)
  then show ?thesis
    by (rule first_failure [OF assms(1-5)])
qed

lemma first_failure_insufficient:
  assumes "truthyS (finalShopId rq)" and "validationErrors rq = Inr []"
    and "rq_items rq = Some (pre @ it # post)" and "castable (pre @ it # post)"
    and "status rq = ''completed''"
    and "list_all (passes rq d) pre"
    and "resolves d it" and "mapGet (products d) (it_productId it) = Some p"
    and "p_currentStock p < itemQuantity it"
  shows "processSaleIn sc ev rq d
       = (catchResponse (insufficient ev p (p_currentStock p) (itemQuantity it)), d)"
proof -
  have "it \<in> set (pre @ it # post)" by simp
  from resolves_get [OF assms(7) this] assms(8)
  have "mapGet (snapshot (productIds (pre @ it # post)) d) (it_productId it) = Some p"
    by simp
  then have "\<And>ad. processItem ev rq (snapshot (productIds (pre @ it # post)) d) it ad
       = (Inl (insufficient ev p (p_currentStock p) (itemQuantity it)), snd ad)"
    using assms(5,9) by (rule processItem_insufficient)
  then show ?thesis
    by (rule first_failure [OF assms(1-4,6)])
qed

lemma numberText_small: "numberText ev 10 = ''10''" "numberText ev 11 = ''11''"
  by (simp_all add: numberText_def showInt_def)

lemma processSaleIn_noShop:
  "\<not> truthyS (finalShopId rq) \<Longrightarrow> processSaleIn sc ev rq d = (shopRequired, d)"
  by (simp add: processSaleIn_def withTransaction_def saleBody_def)

text \<open>
  A request with a shop and no \<^verbatim>\<open>paymentMethod\<close> at all: line 398 throws, and the
  answer is 500.
\<close>

lemma absent_paymentMethod:
  assumes "truthyS (finalShopId rq)" and "rq_paymentMethod rq = None"
  shows "processSaleIn sc ev rq d
       = ((plainResponse 500 ''Failed to process transaction'')
            \<lparr>rs_error := Some noToLowerCase, rs_code := Some ''TRANSACTION_FAILED''\<rparr>,
          d)"
proof -
  have "\<not> includesText noToLowerCase ''Insufficient stock''"
    "\<not> includesText noToLowerCase ''Product not found''"
    by (simp_all add: noToLowerCase_def)
  with assms show ?thesis
    by (simp add: processSaleIn_def withTransaction_def saleBody_def validationErrors_def
          catchResponse_def)
qed

text \<open>
  A cart with an id that is not ObjectId text: the query of line 424 rejects before the
  loop looks at any line, and nothing is written.
\<close>

lemma itemLoop_castError:
  assumes "rq_items rq = Some items" and "\<not> castable items"
  shows "\<exists>m. itemLoop ev rq d = (Inl (CastError m), d)"
proof -
  from assms(2) have ne: "filter (\<lambda>v. \<not> isObjectIdText (showS v)) (productIds items) \<noteq> []"
    by (auto simp: castable_def filter_empty_conv list_all_iff)
  then have "productIds items \<noteq> []" by auto
  with ne assms(1) show ?thesis
    by (cases "filter (\<lambda>v. \<not> isObjectIdText (showS v)) (productIds items)")
       (simp_all add: itemLoop_def withDefault_def productMap_def findProducts_def)
qed

lemma processSaleIn_invalid:
  "truthyS (finalShopId rq) \<Longrightarrow> validationErrors rq = Inr errs \<Longrightarrow> errs \<noteq> [] \<Longrightarrow>
   processSaleIn sc ev rq d = (validationFailed errs, d)"
  by (simp add: processSaleIn_def withTransaction_def saleBody_def)

lemma processSaleIn_commits:
  assumes "truthyS (finalShopId rq)" and "validationErrors rq = Inr []"
    and "itemLoop ev rq d = (Inr a, d1)"
    and "sc ''totalCost'' = Some tc" and "sc ''totalProfit'' = Some tp"
  shows "processSaleIn sc ev rq d
       = (created ev rq a (newTransaction ev rq a tc tp),
          saveTransaction (newTransaction ev rq a tc tp) d1)"
  using assms
  by (simp add: processSaleIn_def withTransaction_def saleBody_valid readIdentifier_def)

lemma newTransaction_fields:
  "tx_items (newTransaction ev rq a tc tp) = transactionItems a"
  "tx_totalAmount (newTransaction ev rq a tc tp) = finalTotalAmount rq a"
  "tx_amountPaid (newTransaction ev rq a tc tp) = orN (rq_amountPaid rq) (finalTotalAmount rq a)"
  "tx_totalCost (newTransaction ev rq a tc tp) = orN tc (calculatedTotalCost a)"
  "tx_totalProfit (newTransaction ev rq a tc tp) = orN tp (calculatedTotalProfit a)"
  by (simp_all add: newTransaction_def Let_def)

lemma declaredScope_reads [simp]:
  "declaredScope ''totalCost'' = Some None" "declaredScope ''totalProfit'' = Some None"
  by (simp_all add: declaredScope_def)

lemma amountPaid_requests_valid:
  "truthyS (finalShopId zeroPaidRequest)" "validationErrors zeroPaidRequest = Inr []"
  "rq_items zeroPaidRequest = Some [cartLine idP 3]" "status zeroPaidRequest = ''completed''"
  "truthyS (finalShopId paidRequest)" "validationErrors paidRequest = Inr []"
  "rq_items paidRequest = Some [cartLine idP 3]" "status paidRequest = ''completed''"
  by (simp_all add: zeroPaidRequest_def paidRequest_def saleRequest_def finalShopId_def
        orElseS_def truthyS_def truthyN_def validationErrors_def withDefault_def
        acceptedMethods_def toLowerCase_def lowerChar_def status_def)

text \<open>
  The loop on one line of 3 of \<open>P\<close> with 10 in stock, whatever else the completed request
  holds: the sums are 24, 15 and 9.
\<close>

lemma three_of_P:
  assumes "rq_items rq = Some [cartLine idP 3]" and "status rq = ''completed''"
  shows "fst (itemLoop ev rq (shelf 10))
    = Inr \<lparr>calculatedTotalAmount = 24, calculatedTotalCost = 15, calculatedTotalProfit = 9,
           transactionItems =
             [\<lparr>li_productId = Some idP, li_productName = ''P'', li_category = ''Drinks'',
               li_barcode = [], li_quantity = 3, li_unitPrice = 8, li_price = 8,
               li_totalPrice = 24, li_costPrice = 5, li_profit = 9, li_profitMargin = 75 / 2\<rparr>],
           stockUpdates =
             [\<lparr>su_productId = Some idP, su_productName = ''P'', su_oldStock = 10,
               su_newStock = 7, su_quantitySold = 3\<rparr>]\<rparr>"
proof -
  have c: "castable [cartLine idP 3]"
    by (simp add: castable_def productIds_def cartLine_def truthyS_def showS_def)
  show ?thesis
    unfolding itemLoop_castable [OF assms(1) c]
    using assms(2)
    by (simp add: js_defs processItem_def mapGet_def snapshot_def productIds_def
          itemQuantity_def itemPrice_def itemCostPrice_def itemTotalPrice_def itemCost_def
          itemProfit_def priceItem_def findByIdAndUpdate_def acc0_def scenario_defs Let_def)
qed

subsection \<open>The stock ledger inside the session\<close>





subsection \<open>The handler in the two scopes\<close>

text \<open>
  What the handler of the source file answers once the loop has gone through.
\<close>

lemma processSale_after_loop:
  assumes "truthyS (finalShopId rq)" and "validationErrors rq = Inr []"
    and "fst (itemLoop ev rq d) = Inr a"
  shows "processSale ev rq d
       = ((plainResponse 500 ''Failed to process transaction'')
            \<lparr>rs_error := Some ''totalCost is not defined'',
             rs_code := Some ''TRANSACTION_FAILED''\<rparr>,
          d)"
proof -
  obtain d1 where "itemLoop ev rq d = (Inr a, d1)"
    using assms(3) by (cases "itemLoop ev rq d") simp
  then have "saleBody moduleScope ev rq d
               = (Inl (ReferenceError ''totalCost is not defined''), d1)"
    by (simp add: saleBody_valid [OF assms(1,2)] readIdentifier_def moduleScope_def)
  then show ?thesis
    by (simp add: processSale_def processSaleIn_def withTransaction_def catchResponse_def)
qed

text \<open>
  A cart naming \<open>P\<close> twice, for 2 and for 3, in the scope that declares the two
  identifiers: with at least 3 in stock the sale is answered 201, the stored transaction
  is completed and sells 2 + 3, and the stock written last, the stock before minus 3, is
  what is committed.
\<close>

lemma repeated_product_declared:
  assumes "3 \<le> n"
  shows "map_option p_currentStock
     (products (snd (processSaleIn declaredScope ev
        (saleRequest 40 [cartLine idP 2, cartLine idP 3]) (shelf n))) idP) = Some (n - 3)
   \<and> map (\<lambda>t. (tx_status t, map li_quantity (tx_items t)))
       (transactions (snd (processSaleIn declaredScope ev
        (saleRequest 40 [cartLine idP 2, cartLine idP 3]) (shelf n))))
      = [(''completed'', [2, 3])]
   \<and> rs_status (fst (processSaleIn declaredScope ev
        (saleRequest 40 [cartLine idP 2, cartLine idP 3]) (shelf n))) = 201"
proof -
  let ?its = "[cartLine idP 2, cartLine idP 3]"
  let ?rq = "saleRequest 40 ?its"
  let ?loop = "itemLoop ev ?rq (shelf n)"
  have v: "truthyS (finalShopId ?rq)" "validationErrors ?rq = Inr []"
    using saleRequest_valid [of ?its 40] by simp_all
  have q: "map_sum id (\<lambda>a. map li_quantity (transactionItems a)) (fst ?loop) = Inr [2, 3]"
    using assms by (simp add: js_defs loop_defs scenario_defs Let_def)
  have stock: "map_option p_currentStock (products (snd ?loop) idP) = Some (n - 3)"
    using assms by (simp add: js_defs loop_defs scenario_defs Let_def)
  have tr: "transactions (snd ?loop) = []"
    using itemLoop_transactions [of ev ?rq "shelf n"] by (simp add: shelf_def)
  obtain a d1 where loop: "?loop = (Inr a, d1)"
    using q by (cases ?loop, cases "fst ?loop") auto
  show ?thesis
    using processSaleIn_commits [OF v loop, of declaredScope None None] q stock tr loop
    by (simp add: saveTransaction_def newTransaction_def created_def Let_def)
qed



section \<open>The claims\<close>

text \<open>
  C1. Scenario A: a completed sale of 3 units of \<open>P\<close> (stock 10, buying price 5, minimum
  selling price 8) with no price override. The loop prices the line as the specification
  says (unit price 8, total 24, unit cost 5, profit 9, margin 37.5) and writes stock 7
  inside the session; then the read of the undeclared \<^verbatim>\<open>totalCost\<close> at line 508 throws,
  the unit of work is discarded, and the handler answers 500 \<^verbatim>\<open>TRANSACTION_FAILED\<close> with
  the stock still 10 and no transaction stored, instead of 201.
\<close>

theorem scenarioA_processSale:
  "map_sum id transactionItems
     (fst (itemLoop ev (saleRequest 24 [cartLine idP 3]) (shelf 10)))
    = Inr [\<lparr>li_productId = Some idP, li_productName = ''P'', li_category = ''Drinks'',
            li_barcode = [], li_quantity = 3, li_unitPrice = 8, li_price = 8,
            li_totalPrice = 24, li_costPrice = 5, li_profit = 9, li_profitMargin = 75 / 2\<rparr>]
   \<and> map_option p_currentStock
       (products (snd (itemLoop ev (saleRequest 24 [cartLine idP 3]) (shelf 10))) idP)
       = Some 7
   \<and> processSale ev (saleRequest 24 [cartLine idP 3]) (shelf 10)
       = ((plainResponse 500 ''Failed to process transaction'')
            \<lparr>rs_error := Some ''totalCost is not defined'',
             rs_code := Some ''TRANSACTION_FAILED''\<rparr>,
          shelf 10)"
proof -
  let ?its = "[cartLine idP 3]"
  let ?rq = "saleRequest 24 ?its"
  let ?loop = "itemLoop ev ?rq (shelf 10)"
  have v: "truthyS (finalShopId ?rq)" "validationErrors ?rq = Inr []"
    using saleRequest_valid [of ?its 24] by simp_all
  have lines: "map_sum id transactionItems (fst ?loop)
    = Inr [\<lparr>li_productId = Some idP, li_productName = ''P'', li_category = ''Drinks'',
            li_barcode = [], li_quantity = 3, li_unitPrice = 8, li_price = 8,
            li_totalPrice = 24, li_costPrice = 5, li_profit = 9, li_profitMargin = 75 / 2\<rparr>]"
    by (simp add: js_defs loop_defs scenario_defs Let_def)
  have stock: "map_option p_currentStock (products (snd ?loop) idP) = Some 7"
    by (simp add: js_defs loop_defs scenario_defs Let_def)
  from lines obtain a where a: "fst ?loop = Inr a" by (cases "fst ?loop") auto
  have "processSale ev ?rq (shelf 10)
       = ((plainResponse 500 ''Failed to process transaction'')
            \<lparr>rs_error := Some ''totalCost is not defined'',
             rs_code := Some ''TRANSACTION_FAILED''\<rparr>,
          shelf 10)"
    by (rule processSale_after_loop [OF v a])
  with lines stock show ?thesis by simp
qed

text \<open>
  C2. Atomicity. Whenever the loop of a validated request throws the insufficient-stock
  error, at whatever line of the cart and whatever the session's database \<open>d1\<close> holds by
  then (the stock writes of the earlier lines), the database after the handler has the
  products and the transactions it had before, and the caller gets 400
  \<^verbatim>\<open>INSUFFICIENT_STOCK\<close>.
\<close>

theorem stock_failure_rolls_back:
  assumes "truthyS (finalShopId rq)" and "validationErrors rq = Inr []"
    and "itemLoop ev rq d = (Inl (insufficient ev p s q), d1)"
  shows "products (snd (processSaleIn sc ev rq d)) = products d
       \<and> transactions (snd (processSaleIn sc ev rq d)) = transactions d
       \<and> rs_status (fst (processSaleIn sc ev rq d)) = 400
       \<and> rs_code (fst (processSaleIn sc ev rq d)) = Some ''INSUFFICIENT_STOCK''"
  using processSaleIn_loop_throws [OF assms, of sc]
  by (simp add: catchResponse_insufficient plainResponse_def)

text \<open>
  A cart of two lines on a catalog with 10 of \<open>P\<close> and 10 of \<open>Q\<close>: 3 of \<open>P\<close>, then 11 of
  \<open>Q\<close>. When the second line fails, the session holds 7 of \<open>P\<close>; after the handler the
  catalog is as before.
\<close>

theorem stock_failure_rolls_back_witness:
  "itemLoop env0 (saleRequest 40 [cartLine idP 3, cartLine idQ 11]) (shelf2 10 10)
    = (Inl (insufficient env0 (productQ 10) 10 11),
       findByIdAndUpdate (Some idP)
         (saleUpdate env0 (saleRequest 40 [cartLine idP 3, cartLine idQ 11]) 3 7)
         (shelf2 10 10))
   \<and> map_option p_currentStock
        (products (findByIdAndUpdate (Some idP)
           (saleUpdate env0 (saleRequest 40 [cartLine idP 3, cartLine idQ 11]) 3 7)
           (shelf2 10 10)) idP) = Some 7
   \<and> products (snd (processSale env0 (saleRequest 40 [cartLine idP 3, cartLine idQ 11])
                      (shelf2 10 10))) = products (shelf2 10 10)
   \<and> transactions (snd (processSale env0 (saleRequest 40 [cartLine idP 3, cartLine idQ 11])
                      (shelf2 10 10))) = transactions (shelf2 10 10)
   \<and> rs_status (fst (processSale env0 (saleRequest 40 [cartLine idP 3, cartLine idQ 11])
                      (shelf2 10 10))) = 400
   \<and> rs_code (fst (processSale env0 (saleRequest 40 [cartLine idP 3, cartLine idQ 11])
                      (shelf2 10 10))) = Some ''INSUFFICIENT_STOCK''"
proof -
  let ?its = "[cartLine idP 3, cartLine idQ 11]"
  let ?rq = "saleRequest 40 ?its"
  let ?d1 = "findByIdAndUpdate (Some idP) (saleUpdate env0 ?rq 3 7) (shelf2 10 10)"
  have v: "truthyS (finalShopId ?rq)" "validationErrors ?rq = Inr []"
    using saleRequest_valid [of ?its 40] by simp_all
  have loop: "itemLoop env0 ?rq (shelf2 10 10)
          = (Inl (insufficient env0 (productQ 10) 10 11), ?d1)"
    by (simp add: js_defs loop_defs scenario_defs Let_def)
  have stock: "map_option p_currentStock (products ?d1 idP) = Some 7"
    by (simp add: js_defs loop_defs scenario_defs)
  show ?thesis
    using stock_failure_rolls_back [OF v loop, of moduleScope] stock loop
    unfolding processSale_def by simp
qed

text \<open>
  C3. Scenario E: a completed sale naming \<open>P\<close> twice, for 2 and for 3, with 4 in stock.
  Each line is checked against the stock read into the \<^verbatim>\<open>productMap\<close> before the loop
  (2 against 4, 3 against 4), so no insufficient-stock error is thrown; the two stock
  writes are 4 - 2 and 4 - 3, and the session ends with stock 1 after selling 5 of 4.
  The handler then stops at the read of \<^verbatim>\<open>totalCost\<close> (see C1) and answers 500
  \<^verbatim>\<open>TRANSACTION_FAILED\<close>, not 400 \<^verbatim>\<open>INSUFFICIENT_STOCK\<close>; in the scope that declares
  the two identifiers it answers 201 and commits the stock 1.
\<close>

theorem scenarioE_processSale:
  "map_sum id stockUpdates
     (fst (itemLoop ev (saleRequest 40 [cartLine idP 2, cartLine idP 3]) (shelf 4)))
    = Inr [\<lparr>su_productId = Some idP, su_productName = ''P'', su_oldStock = 4,
            su_newStock = 2, su_quantitySold = 2\<rparr>,
           \<lparr>su_productId = Some idP, su_productName = ''P'', su_oldStock = 4,
            su_newStock = 1, su_quantitySold = 3\<rparr>]
   \<and> map_option p_currentStock
       (products (snd (itemLoop ev (saleRequest 40 [cartLine idP 2, cartLine idP 3])
                         (shelf 4))) idP) = Some 1
   \<and> processSale ev (saleRequest 40 [cartLine idP 2, cartLine idP 3]) (shelf 4)
       = ((plainResponse 500 ''Failed to process transaction'')
            \<lparr>rs_error := Some ''totalCost is not defined'',
             rs_code := Some ''TRANSACTION_FAILED''\<rparr>,
          shelf 4)
   \<and> rs_status (fst (processSaleIn declaredScope ev
          (saleRequest 40 [cartLine idP 2, cartLine idP 3]) (shelf 4))) = 201
   \<and> map_option p_currentStock (products (snd (processSaleIn declaredScope ev
          (saleRequest 40 [cartLine idP 2, cartLine idP 3]) (shelf 4))) idP) = Some 1"
proof -
  let ?its = "[cartLine idP 2, cartLine idP 3]"
  let ?rq = "saleRequest 40 ?its"
  let ?loop = "itemLoop ev ?rq (shelf 4)"
  have v: "truthyS (finalShopId ?rq)" "validationErrors ?rq = Inr []"
    using saleRequest_valid [of ?its 40] by simp_all
  have ups: "map_sum id stockUpdates (fst ?loop)
    = Inr [\<lparr>su_productId = Some idP, su_productName = ''P'', su_oldStock = 4,
            su_newStock = 2, su_quantitySold = 2\<rparr>,
           \<lparr>su_productId = Some idP, su_productName = ''P'', su_oldStock = 4,
            su_newStock = 1, su_quantitySold = 3\<rparr>]"
    by (simp add: js_defs loop_defs scenario_defs Let_def)
  have stock: "map_option p_currentStock (products (snd ?loop) idP) = Some 1"
    by (simp add: js_defs loop_defs scenario_defs Let_def)
  from ups obtain a where a: "fst ?loop = Inr a" by (cases "fst ?loop") auto
  have "processSale ev ?rq (shelf 4)
       = ((plainResponse 500 ''Failed to process transaction'')
            \<lparr>rs_error := Some ''totalCost is not defined'',
             rs_code := Some ''TRANSACTION_FAILED''\<rparr>,
          shelf 4)"
    by (rule processSale_after_loop [OF v a])
  with ups stock repeated_product_declared [of 4 ev] show ?thesis by simp
qed



text \<open>
  C5. A completed sale that passes validation, every line of which names a product of the
  catalog, and at least one line of which asks for more than the stock of its product.
  The loop stops at the first such line \<open>it\<close>, with product \<open>p\<close>: the caller gets 400
  \<^verbatim>\<open>INSUFFICIENT_STOCK\<close> with the product's name, its stock and the quantity asked for in
  the error text, and the database (so the product's \<^verbatim>\<open>currentStock\<close>) is as before.
\<close>

theorem insufficient_stock_response:
  assumes "truthyS (finalShopId rq)" and "validationErrors rq = Inr []"
    and "status rq = ''completed''" and "rq_items rq = Some its"
    and "list_all (resolves d) its" and "list_ex (exceeds d) its"
  shows "\<exists>pre it post p. its = pre @ it # post \<and> list_all (\<lambda>i. \<not> exceeds d i) pre
       \<and> mapGet (products d) (it_productId it) = Some p
       \<and> p_currentStock p < itemQuantity it
       \<and> processSale ev rq d
           = ((plainResponse 400 ''Stock validation failed'')
                \<lparr>rs_error := Some (''Insufficient stock for '' @ p_name p @ ''. Available: ''
                                   @ numberText ev (p_currentStock p) @ '', Requested: ''
                                   @ numberText ev (itemQuantity it)),
                 rs_code := Some ''INSUFFICIENT_STOCK''\<rparr>,
              d)"
proof -
  from assms(6) have "\<exists>x\<in>set its. exceeds d x" by (simp add: list_ex_iff)
  from split_list_first_prop [OF this] obtain pre it post where
    s: "its = pre @ it # post" "exceeds d it" "\<forall>y\<in>set pre. \<not> exceeds d y"
    by blast
  from s(2) obtain p where p: "mapGet (products d) (it_productId it) = Some p"
      "p_currentStock p < itemQuantity it"
    by (auto simp: exceeds_def split: option.splits)
  from assms(5) s(1) have res: "resolves d it" "list_all (resolves d) pre" by simp_all
  from res(2) s(3) have pre: "list_all (passes rq d) pre"
    by (simp add: passes_def list_all_iff)
  from assms(5) have c: "castable (pre @ it # post)"
    unfolding s(1) by (rule resolves_castable)
  have items: "rq_items rq = Some (pre @ it # post)" using assms(4) s(1) by simp
  have "processSale ev rq d
       = (catchResponse (insufficient ev p (p_currentStock p) (itemQuantity it)), d)"
    unfolding processSale_def
    by (rule first_failure_insufficient [OF assms(1,2) items c assms(3) pre res(1) p])
  then have "processSale ev rq d
           = ((plainResponse 400 ''Stock validation failed'')
                \<lparr>rs_error := Some (''Insufficient stock for '' @ p_name p @ ''. Available: ''
                                   @ numberText ev (p_currentStock p) @ '', Requested: ''
                                   @ numberText ev (itemQuantity it)),
                 rs_code := Some ''INSUFFICIENT_STOCK''\<rparr>,
              d)"
    by (simp add: catchResponse_insufficient) (simp add: insufficient_def)
  with s(1,3) p show ?thesis by (auto simp: list_all_iff)
qed

text \<open>
  Scenario B behind one good line: 2 of \<open>Q\<close>, then 11 of \<open>P\<close>, with 10 of each in stock.
\<close>

theorem insufficient_stock_response_witness:
  "truthyS (finalShopId (saleRequest 40 [cartLine idQ 2, cartLine idP 11]))
   \<and> validationErrors (saleRequest 40 [cartLine idQ 2, cartLine idP 11]) = Inr []
   \<and> status (saleRequest 40 [cartLine idQ 2, cartLine idP 11]) = ''completed''
   \<and> list_all (resolves (shelf2 10 10)) [cartLine idQ 2, cartLine idP 11]
   \<and> list_ex (exceeds (shelf2 10 10)) [cartLine idQ 2, cartLine idP 11]
   \<and> (\<exists>pre it post p. [cartLine idQ 2, cartLine idP 11] = pre @ it # post
         \<and> mapGet (products (shelf2 10 10)) (it_productId it) = Some p
         \<and> p_currentStock p < itemQuantity it
         \<and> processSale env0 (saleRequest 40 [cartLine idQ 2, cartLine idP 11]) (shelf2 10 10)
           = ((plainResponse 400 ''Stock validation failed'')
                \<lparr>rs_error := Some (''Insufficient stock for '' @ p_name p @ ''. Available: ''
                                   @ numberText env0 (p_currentStock p) @ '', Requested: ''
                                   @ numberText env0 (itemQuantity it)),
                 rs_code := Some ''INSUFFICIENT_STOCK''\<rparr>,
              shelf2 10 10))
   \<and> processSale env0 (saleRequest 40 [cartLine idQ 2, cartLine idP 11]) (shelf2 10 10)
       = ((plainResponse 400 ''Stock validation failed'')
            \<lparr>rs_error := Some ''Insufficient stock for P. Available: 10, Requested: 11'',
             rs_code := Some ''INSUFFICIENT_STOCK''\<rparr>,
          shelf2 10 10)"
proof -
  let ?its = "[cartLine idQ 2, cartLine idP 11]"
  let ?rq = "saleRequest 40 ?its"
  have v: "truthyS (finalShopId ?rq)" "validationErrors ?rq = Inr []"
    using saleRequest_valid [of ?its 40] by simp_all
  have st: "status ?rq = ''completed''" and its: "rq_items ?rq = Some ?its" by simp_all
  have res: "list_all (resolves (shelf2 10 10)) ?its"
    by (simp add: resolves_def cartLine_def shelf2_def)
  have ex: "list_ex (exceeds (shelf2 10 10)) ?its"
    by (simp add: exceeds_def mapGet_def cartLine_def shelf2_def productP_def productQ_def
          itemQuantity_def orI_def)
  have loop: "\<exists>d1. itemLoop env0 ?rq (shelf2 10 10)
          = (Inl (insufficient env0 (productP 10) 10 11), d1)"
    by (simp add: js_defs loop_defs scenario_defs Let_def)
  then obtain d1 where "itemLoop env0 ?rq (shelf2 10 10)
          = (Inl (insufficient env0 (productP 10) 10 11), d1)" ..
  with v have "processSaleIn moduleScope env0 ?rq (shelf2 10 10)
          = (catchResponse (insufficient env0 (productP 10) 10 11), shelf2 10 10)"
    by (rule processSaleIn_loop_throws)
  then have concrete: "processSale env0 ?rq (shelf2 10 10)
       = ((plainResponse 400 ''Stock validation failed'')
            \<lparr>rs_error := Some ''Insufficient stock for P. Available: 10, Requested: 11'',
             rs_code := Some ''INSUFFICIENT_STOCK''\<rparr>,
          shelf2 10 10)"
    by (simp add: processSale_def catchResponse_insufficient)
       (simp add: insufficient_def numberText_small productP_def)
  from insufficient_stock_response [OF v st its res ex, of env0]
  have "\<exists>pre it post p. ?its = pre @ it # post
         \<and> mapGet (products (shelf2 10 10)) (it_productId it) = Some p
         \<and> p_currentStock p < itemQuantity it
         \<and> processSale env0 ?rq (shelf2 10 10)
           = ((plainResponse 400 ''Stock validation failed'')
                \<lparr>rs_error := Some (''Insufficient stock for '' @ p_name p @ ''. Available: ''
                                   @ numberText env0 (p_currentStock p) @ '', Requested: ''
                                   @ numberText env0 (itemQuantity it)),
                 rs_code := Some ''INSUFFICIENT_STOCK''\<rparr>,
              shelf2 10 10)"
    by blast
  with v st res ex concrete show ?thesis by blast
qed

text \<open>
  C6, as the code has it. A sale that passes validation and whose product ids are all
  ObjectId text, in which every line before \<open>it\<close> passes the two guards of the loop and
  the product id of \<open>it\<close> resolves to nothing: the caller gets 404 \<^verbatim>\<open>PRODUCT_NOT_FOUND\<close>
  with the id in the error text, and the database (so the stock of every other line) is
  as before.
\<close>

theorem product_not_found_response:
  assumes "truthyS (finalShopId rq)" and "validationErrors rq = Inr []"
    and "rq_items rq = Some (pre @ it # post)" and "castable (pre @ it # post)"
    and "list_all (passes rq d) pre"
    and "mapGet (products d) (it_productId it) = None"
  shows "processSale ev rq d
       = ((plainResponse 404 ''Product not found'')
            \<lparr>rs_error := Some (''Product not found with ID: '' @ showS (it_productId it)),
             rs_code := Some ''PRODUCT_NOT_FOUND''\<rparr>,
          d)"
proof -
  have no: "\<not> includesText (showS (it_productId it)) ''Insufficient stock''"
  proof (cases "truthyS (it_productId it)")
    case True
    then have "it_productId it \<in> set (productIds (pre @ it # post))"
      by (simp add: productIds_def)
    with assms(4) have "isObjectIdText (showS (it_productId it))"
      by (simp add: castable_def list_all_iff)
    then show ?thesis by (rule objectId_not_insufficient)
  next
    case False
    then have "showS (it_productId it) = ''undefined'' \<or> showS (it_productId it) = []"
      by (auto simp: truthyS_def showS_def split: option.splits)
    then show ?thesis by auto
  qed
  have "processSale ev rq d = (catchResponse (notFound it), d)"
    unfolding processSale_def by (rule first_failure_notFound [OF assms])
  with no show ?thesis
    by (simp add: catchResponse_notFound) (simp add: notFound_def)
qed

text \<open>Scenario C: 3 of \<open>P\<close> (10 in stock), then a line for the unknown id \<open>idX\<close>.\<close>

theorem product_not_found_response_witness:
  "truthyS (finalShopId (saleRequest 40 [cartLine idP 3, cartLine idX 1]))
   \<and> validationErrors (saleRequest 40 [cartLine idP 3, cartLine idX 1]) = Inr []
   \<and> castable [cartLine idP 3, cartLine idX 1]
   \<and> list_all (passes (saleRequest 40 [cartLine idP 3, cartLine idX 1]) (shelf 10))
        [cartLine idP 3]
   \<and> mapGet (products (shelf 10)) (it_productId (cartLine idX 1)) = None
   \<and> processSale env0 (saleRequest 40 [cartLine idP 3, cartLine idX 1]) (shelf 10)
       = ((plainResponse 404 ''Product not found'')
            \<lparr>rs_error := Some (''Product not found with ID: '' @ idX),
             rs_code := Some ''PRODUCT_NOT_FOUND''\<rparr>,
          shelf 10)"
proof -
  let ?its = "[cartLine idP 3, cartLine idX 1]"
  let ?rq = "saleRequest 40 ?its"
  have v: "truthyS (finalShopId ?rq)" "validationErrors ?rq = Inr []"
    using saleRequest_valid [of ?its 40] by simp_all
  have its: "rq_items ?rq = Some ([cartLine idP 3] @ cartLine idX 1 # [])" by simp
  have c: "castable ([cartLine idP 3] @ cartLine idX 1 # [])"
    by (simp add: castable_def productIds_def cartLine_def truthyS_def showS_def)
  have pre: "list_all (passes ?rq (shelf 10)) [cartLine idP 3]"
    by (simp add: passes_def resolves_def exceeds_def mapGet_def cartLine_def shelf_def
          productP_def itemQuantity_def orI_def)
  have un: "mapGet (products (shelf 10)) (it_productId (cartLine idX 1)) = None"
    by (simp add: cartLine_def mapGet_def shelf_def)
  have tx: "showS (it_productId (cartLine idX 1)) = idX"
    by (simp add: cartLine_def showS_def)
  show ?thesis
    using product_not_found_response [OF v its c pre un, of env0] v c pre un tx
    by simp
qed

text \<open>
  C6 as stated fails: a completed sale whose first line asks for 11 of \<open>P\<close> with 10 in
  stock and whose second line names the unknown id \<open>idX\<close> is answered 400
  \<^verbatim>\<open>INSUFFICIENT_STOCK\<close>.
\<close>

theorem product_not_found_counterexample:
  "mapGet (products (shelf 10)) (it_productId (cartLine idX 1)) = None
   \<and> castable [cartLine idP 11, cartLine idX 1]
   \<and> rs_status (fst (processSale env0 (saleRequest 40 [cartLine idP 11, cartLine idX 1])
                       (shelf 10))) = 400
   \<and> rs_code (fst (processSale env0 (saleRequest 40 [cartLine idP 11, cartLine idX 1])
                       (shelf 10))) = Some ''INSUFFICIENT_STOCK''
   \<and> snd (processSale env0 (saleRequest 40 [cartLine idP 11, cartLine idX 1]) (shelf 10))
       = shelf 10"
proof -
  let ?its = "[cartLine idP 11, cartLine idX 1]"
  let ?rq = "saleRequest 40 ?its"
  have v: "truthyS (finalShopId ?rq)" "validationErrors ?rq = Inr []"
    using saleRequest_valid [of ?its 40] by simp_all
  have c: "castable ?its"
    by (simp add: castable_def productIds_def cartLine_def truthyS_def showS_def)
  have "\<exists>d1. itemLoop env0 ?rq (shelf 10)
          = (Inl (insufficient env0 (productP 10) 10 11), d1)"
    by (simp add: js_defs loop_defs scenario_defs Let_def)
  then obtain d1 where "itemLoop env0 ?rq (shelf 10)
          = (Inl (insufficient env0 (productP 10) 10 11), d1)" ..
  with v have "processSaleIn moduleScope env0 ?rq (shelf 10)
          = (catchResponse (insufficient env0 (productP 10) 10 11), shelf 10)"
    by (rule processSaleIn_loop_throws)
  with c show ?thesis
    by (simp add: processSale_def catchResponse_insufficient plainResponse_def)
       (simp add: cartLine_def mapGet_def shelf_def)
qed

text \<open>
  C7, as the code has it. A request without a shop is answered at once with 400 and the
  single shop message, before any other rule is looked at. A request with a shop and a
  textual \<^verbatim>\<open>paymentMethod\<close> that breaks at least one of the other rules is answered with
  400 and one list that holds the message of a rule exactly when that rule is broken. In
  both cases the database is as before.
\<close>

theorem validation_response:
  "(\<not> truthyS (finalShopId rq) \<longrightarrow> processSaleIn sc ev rq d = (shopRequired, d))
   \<and> (truthyS (finalShopId rq) \<and> rq_paymentMethod rq = Some pm
        \<and> (pm = [] \<or> toLowerCase pm \<notin> set acceptedMethods
             \<or> \<not> truthyN (rq_totalAmount rq) \<or> withDefault (rq_totalAmount rq) 0 \<le> 0
             \<or> rq_items rq = None \<or> rq_items rq = Some []
             \<or> \<not> truthyS (rq_cashierId rq) \<or> \<not> truthyS (rq_cashierName rq))
       \<longrightarrow> (\<exists>errs. processSaleIn sc ev rq d = (validationFailed errs, d)
              \<and> rs_status (validationFailed errs) = 400
              \<and> rs_errors (validationFailed errs) = Some errs
              \<and> (''Payment method is required'' \<in> set errs \<longleftrightarrow> pm = [])
              \<and> (''Payment method must be cash, mpesa, bank, or card'' \<in> set errs
                    \<longleftrightarrow> toLowerCase pm \<notin> set acceptedMethods)
              \<and> (''Valid total amount is required'' \<in> set errs
                    \<longleftrightarrow> \<not> truthyN (rq_totalAmount rq) \<or> withDefault (rq_totalAmount rq) 0 \<le> 0)
              \<and> (''Transaction items are required'' \<in> set errs
                    \<longleftrightarrow> rq_items rq = None \<or> rq_items rq = Some [])
              \<and> (''Cashier information is required'' \<in> set errs
                    \<longleftrightarrow> \<not> truthyS (rq_cashierId rq) \<or> \<not> truthyS (rq_cashierName rq))))"
proof (intro conjI impI)
  assume "\<not> truthyS (finalShopId rq)"
  then show "processSaleIn sc ev rq d = (shopRequired, d)" by (rule processSaleIn_noShop)
next
  assume a: "truthyS (finalShopId rq) \<and> rq_paymentMethod rq = Some pm
        \<and> (pm = [] \<or> toLowerCase pm \<notin> set acceptedMethods
             \<or> \<not> truthyN (rq_totalAmount rq) \<or> withDefault (rq_totalAmount rq) 0 \<le> 0
             \<or> rq_items rq = None \<or> rq_items rq = Some []
             \<or> \<not> truthyS (rq_cashierId rq) \<or> \<not> truthyS (rq_cashierName rq))"
  let ?errs = "(if pm = [] then [''Payment method is required''] else [])
             @ (if toLowerCase pm \<notin> set acceptedMethods
                then [''Payment method must be cash, mpesa, bank, or card''] else [])
             @ (if \<not> truthyN (rq_totalAmount rq) \<or> withDefault (rq_totalAmount rq) 0 \<le> 0
                then [''Valid total amount is required''] else [])
             @ (if rq_items rq = None \<or> rq_items rq = Some []
                then [''Transaction items are required''] else [])
             @ (if \<not> truthyS (rq_cashierId rq) \<or> \<not> truthyS (rq_cashierName rq)
                then [''Cashier information is required''] else [])"
  from a have ve: "validationErrors rq = Inr ?errs"
    by (simp add: validationErrors_def truthyS_def)
  from a have pm: "pm = [] \<Longrightarrow> toLowerCase pm \<notin> set acceptedMethods"
    by (simp add: toLowerCase_def acceptedMethods_def)
  from a pm have ne: "?errs \<noteq> []" by auto
  from a ve ne have "processSaleIn sc ev rq d = (validationFailed ?errs, d)"
    by (intro processSaleIn_invalid) simp_all
  moreover have "rs_status (validationFailed ?errs) = 400"
    "rs_errors (validationFailed ?errs) = Some ?errs"
    by (simp_all add: validationFailed_def plainResponse_def)
  moreover have "''Payment method is required'' \<in> set ?errs \<longleftrightarrow> pm = []" by simp
  moreover have "''Payment method must be cash, mpesa, bank, or card'' \<in> set ?errs
                    \<longleftrightarrow> toLowerCase pm \<notin> set acceptedMethods" by simp
  moreover have "''Valid total amount is required'' \<in> set ?errs
                    \<longleftrightarrow> \<not> truthyN (rq_totalAmount rq) \<or> withDefault (rq_totalAmount rq) 0 \<le> 0"
    by simp
  moreover have "''Transaction items are required'' \<in> set ?errs
                    \<longleftrightarrow> rq_items rq = None \<or> rq_items rq = Some []" by simp
  moreover have "''Cashier information is required'' \<in> set ?errs
                    \<longleftrightarrow> \<not> truthyS (rq_cashierId rq) \<or> \<not> truthyS (rq_cashierName rq)" by simp
  ultimately show "\<exists>errs. processSaleIn sc ev rq d = (validationFailed errs, d)
              \<and> rs_status (validationFailed errs) = 400
              \<and> rs_errors (validationFailed errs) = Some errs
              \<and> (''Payment method is required'' \<in> set errs \<longleftrightarrow> pm = [])
              \<and> (''Payment method must be cash, mpesa, bank, or card'' \<in> set errs
                    \<longleftrightarrow> toLowerCase pm \<notin> set acceptedMethods)
              \<and> (''Valid total amount is required'' \<in> set errs
                    \<longleftrightarrow> \<not> truthyN (rq_totalAmount rq) \<or> withDefault (rq_totalAmount rq) 0 \<le> 0)
              \<and> (''Transaction items are required'' \<in> set errs
                    \<longleftrightarrow> rq_items rq = None \<or> rq_items rq = Some [])
              \<and> (''Cashier information is required'' \<in> set errs
                    \<longleftrightarrow> \<not> truthyS (rq_cashierId rq) \<or> \<not> truthyS (rq_cashierName rq))"
    by blast
qed

text \<open>
  The request without a shop, and the one paid by cheque with \<^verbatim>\<open>totalAmount = 0\<close> and no
  cashier name: three messages in one list.
\<close>

theorem validation_response_witness:
  "\<not> truthyS (finalShopId noShopRequest)
   \<and> processSale env0 noShopRequest (shelf 10) = (shopRequired, shelf 10)
   \<and> truthyS (finalShopId chequeRequest)
   \<and> rq_paymentMethod chequeRequest = Some ''cheque''
   \<and> toLowerCase ''cheque'' \<notin> set acceptedMethods
   \<and> (\<exists>errs. processSale env0 chequeRequest (shelf 10) = (validationFailed errs, shelf 10)
         \<and> rs_status (validationFailed errs) = 400
         \<and> rs_errors (validationFailed errs) = Some errs
         \<and> ''Payment method is required'' \<notin> set errs
         \<and> ''Payment method must be cash, mpesa, bank, or card'' \<in> set errs
         \<and> ''Valid total amount is required'' \<in> set errs
         \<and> ''Transaction items are required'' \<notin> set errs
         \<and> ''Cashier information is required'' \<in> set errs)"
proof -
  have s: "\<not> truthyS (finalShopId noShopRequest)"
    by (simp add: noShopRequest_def saleRequest_def finalShopId_def js_defs)
  have c: "truthyS (finalShopId chequeRequest)" "rq_paymentMethod chequeRequest = Some ''cheque''"
    "toLowerCase ''cheque'' \<notin> set acceptedMethods"
    "withDefault (rq_totalAmount chequeRequest) 0 \<le> 0"
    "rq_items chequeRequest \<noteq> None" "rq_items chequeRequest \<noteq> Some []"
    "\<not> truthyS (rq_cashierName chequeRequest)"
    by (simp_all add: chequeRequest_def saleRequest_def finalShopId_def js_defs
          toLowerCase_def lowerChar_def acceptedMethods_def)
  show ?thesis
    using validation_response [where rq = noShopRequest and sc = moduleScope and ev = env0
        and d = "shelf 10" and pm = "''cheque''"]
      validation_response [where rq = chequeRequest and sc = moduleScope and ev = env0
        and d = "shelf 10" and pm = "''cheque''"] s c
    unfolding processSale_def by simp
qed

text \<open>
  C7 as stated fails: for a request with neither shop nor a positive \<^verbatim>\<open>totalAmount\<close> the
  answer carries no list, only the shop message.
\<close>

theorem validation_counterexample:
  "\<not> truthyS (finalShopId noShopRequest)
   \<and> withDefault (rq_totalAmount noShopRequest) 0 \<le> 0
   \<and> rs_status (fst (processSale env0 noShopRequest (shelf 10))) = 400
   \<and> rs_message (fst (processSale env0 noShopRequest (shelf 10)))
        = ''Shop information is required. Provide either shop or shopId''
   \<and> rs_errors (fst (processSale env0 noShopRequest (shelf 10))) = None"
proof -
  have s: "\<not> truthyS (finalShopId noShopRequest)"
    by (simp add: noShopRequest_def saleRequest_def finalShopId_def js_defs)
  then have "processSale env0 noShopRequest (shelf 10) = (shopRequired, shelf 10)"
    unfolding processSale_def by (rule processSaleIn_noShop)
  with s show ?thesis
    by (simp add: shopRequired_def plainResponse_def)
       (simp add: noShopRequest_def saleRequest_def withDefault_def)
qed


text \<open>
  C9, as the code has it. The quantity is the request's unless absent or 0, then 1. The
  unit price is the first of \<^verbatim>\<open>item.unitPrice\<close>, \<^verbatim>\<open>item.price\<close>,
  \<^verbatim>\<open>product.minSellingPrice\<close>, \<^verbatim>\<open>product.sellingPrice\<close> that is present and not 0
  (whatever its sign), else 0. The line total is the request's \<^verbatim>\<open>totalPrice\<close> if present
  and not 0 (whatever its sign), else unit price times quantity. The profit is the line
  total minus buying price times quantity, and the margin is profit / total * 100 when the
  total is positive and 0 otherwise.
\<close>

theorem priceItem_lines:
  "li_quantity (priceItem it p)
      = (if truthyI (it_quantity it) then withDefault (it_quantity it) 0 else 1)
   \<and> li_unitPrice (priceItem it p)
      = (if truthyN (it_unitPrice it) then withDefault (it_unitPrice it) 0
         else if truthyN (it_price it) then withDefault (it_price it) 0
         else if p_minSellingPrice p \<noteq> 0 then p_minSellingPrice p
         else withDefault (p_sellingPrice p) 0)
   \<and> li_totalPrice (priceItem it p)
      = (if truthyN (it_totalPrice it) then withDefault (it_totalPrice it) 0
         else li_unitPrice (priceItem it p) * of_int (li_quantity (priceItem it p)))
   \<and> li_profit (priceItem it p)
      = li_totalPrice (priceItem it p) - p_buyingPrice p * of_int (li_quantity (priceItem it p))
   \<and> li_profitMargin (priceItem it p)
      = (if li_totalPrice (priceItem it p) > 0
         then li_profit (priceItem it p) / li_totalPrice (priceItem it p) * 100 else 0)"
  by (auto simp: priceItem_def itemQuantity_def itemPrice_def itemTotalPrice_def itemProfit_def
        itemCost_def itemCostPrice_def js_defs split: option.splits)

text \<open>
  C9 as stated fails: an override of -5 is present and not positive, yet it is the unit
  price (not the minimum selling price 8) and the line total is -5; an explicit line
  total of -3 is kept as it is.
\<close>

theorem priceItem_counterexample:
  "it_unitPrice ((cartLine idP 1)\<lparr>it_unitPrice := Some (- 5)\<rparr>) = Some (- 5)
   \<and> p_minSellingPrice (productP 10) = 8
   \<and> li_unitPrice (priceItem ((cartLine idP 1)\<lparr>it_unitPrice := Some (- 5)\<rparr>) (productP 10))
        = - 5
   \<and> li_totalPrice (priceItem ((cartLine idP 1)\<lparr>it_unitPrice := Some (- 5)\<rparr>) (productP 10))
        = - 5
   \<and> li_totalPrice (priceItem ((cartLine idP 1)\<lparr>it_totalPrice := Some (- 3)\<rparr>) (productP 10))
        = - 3"
  by (simp add: priceItem_def itemQuantity_def itemPrice_def itemTotalPrice_def js_defs
        cartLine_def productP_def)

text \<open>
  C10. No transaction is constructed for a request that passes validation. Scenario A
  without \<^verbatim>\<open>amountPaid\<close>, with \<^verbatim>\<open>amountPaid = 0\<close> and with \<^verbatim>\<open>amountPaid = 50\<close>: each
  time the read of the undeclared \<^verbatim>\<open>totalCost\<close> at line 508 throws (see C1) before line
  516 is reached, the handler answers 500 \<^verbatim>\<open>TRANSACTION_FAILED\<close> and stores nothing. The
  expression of line 521 itself, on whatever the lines before it would hand over, gives
  the request's \<^verbatim>\<open>amountPaid\<close> if it is present and not 0, and the transaction's
  \<^verbatim>\<open>totalAmount\<close> otherwise.
\<close>

theorem amountPaid_not_stored:
  "rq_amountPaid (saleRequest 24 [cartLine idP 3]) = None
   \<and> processSale ev (saleRequest 24 [cartLine idP 3]) (shelf 10)
       = ((plainResponse 500 ''Failed to process transaction'')
            \<lparr>rs_error := Some ''totalCost is not defined'',
             rs_code := Some ''TRANSACTION_FAILED''\<rparr>,
          shelf 10)
   \<and> rq_amountPaid zeroPaidRequest = Some 0
   \<and> processSale ev zeroPaidRequest (shelf 10)
       = ((plainResponse 500 ''Failed to process transaction'')
            \<lparr>rs_error := Some ''totalCost is not defined'',
             rs_code := Some ''TRANSACTION_FAILED''\<rparr>,
          shelf 10)
   \<and> rq_amountPaid paidRequest = Some 50
   \<and> processSale ev paidRequest (shelf 10)
       = ((plainResponse 500 ''Failed to process transaction'')
            \<lparr>rs_error := Some ''totalCost is not defined'',
             rs_code := Some ''TRANSACTION_FAILED''\<rparr>,
          shelf 10)
   \<and> tx_amountPaid (newTransaction ev rq a tc tp)
       = (if truthyN (rq_amountPaid rq) then withDefault (rq_amountPaid rq) 0
          else tx_totalAmount (newTransaction ev rq a tc tp))"
proof -
  let ?rq = "saleRequest 24 [cartLine idP 3]"
  let ?r500 = "(plainResponse 500 ''Failed to process transaction'')
            \<lparr>rs_error := Some ''totalCost is not defined'',
             rs_code := Some ''TRANSACTION_FAILED''\<rparr>"
  have v: "truthyS (finalShopId ?rq)" "validationErrors ?rq = Inr []"
    using saleRequest_valid [of "[cartLine idP 3]" 24] by simp_all
  have paid: "rq_amountPaid ?rq = None" "rq_amountPaid zeroPaidRequest = Some 0"
    "rq_amountPaid paidRequest = Some 50"
    by (simp_all add: saleRequest_def zeroPaidRequest_def paidRequest_def)
  have r1: "processSale ev ?rq (shelf 10) = (?r500, shelf 10)"
    by (rule processSale_after_loop [OF v three_of_P]) simp_all
  have r2: "processSale ev zeroPaidRequest (shelf 10) = (?r500, shelf 10)"
    by (rule processSale_after_loop [OF amountPaid_requests_valid(1,2)
          three_of_P [OF amountPaid_requests_valid(3,4)]])
  have r3: "processSale ev paidRequest (shelf 10) = (?r500, shelf 10)"
    by (rule processSale_after_loop [OF amountPaid_requests_valid(5,6)
          three_of_P [OF amountPaid_requests_valid(7,8)]])
  have line521: "tx_amountPaid (newTransaction ev rq a tc tp)
       = (if truthyN (rq_amountPaid rq) then withDefault (rq_amountPaid rq) 0
          else tx_totalAmount (newTransaction ev rq a tc tp))"
    by (simp add: newTransaction_fields orN_def truthyN_def withDefault_def
          split: option.splits)
  from paid r1 r2 r3 line521 show ?thesis by simp
qed

end
